theory Spec2Isabelle
  imports Complex_Main "HOL-Library.Word" "HOL-Library.Sublist"
begin

section \<open>Go library functions used by the gateway\<close>

text \<open>
  A Go string is a byte sequence; it is modelled as a \<open>string\<close> (a list of bytes), and
  text is UTF-8. \<open>unicode.IsSpace\<close> holds of the runes U+0009 to U+000D, U+0020, U+0085,
  U+00A0, U+1680, U+2000 to U+200A, U+2028, U+2029, U+202F, U+205F and U+3000;
  \<open>spaceRunes\<close> lists their UTF-8 encodings. A string begins (or ends) with a
  white-space rune exactly when it begins (or ends) with one of these encodings.
\<close>

definition spaceRunes :: "string list" where
  "spaceRunes =
     [[CHR 0x09], [CHR 0x0A], [CHR 0x0B], [CHR 0x0C], [CHR 0x0D], [CHR 0x20],
      [CHR 0xC2, CHR 0x85], [CHR 0xC2, CHR 0xA0],
      [CHR 0xE1, CHR 0x9A, CHR 0x80],
      [CHR 0xE2, CHR 0x80, CHR 0x80], [CHR 0xE2, CHR 0x80, CHR 0x81],
      [CHR 0xE2, CHR 0x80, CHR 0x82], [CHR 0xE2, CHR 0x80, CHR 0x83],
      [CHR 0xE2, CHR 0x80, CHR 0x84], [CHR 0xE2, CHR 0x80, CHR 0x85],
      [CHR 0xE2, CHR 0x80, CHR 0x86], [CHR 0xE2, CHR 0x80, CHR 0x87],
      [CHR 0xE2, CHR 0x80, CHR 0x88], [CHR 0xE2, CHR 0x80, CHR 0x89],
      [CHR 0xE2, CHR 0x80, CHR 0x8A],
      [CHR 0xE2, CHR 0x80, CHR 0xA8], [CHR 0xE2, CHR 0x80, CHR 0xA9],
      [CHR 0xE2, CHR 0x80, CHR 0xAF],
      [CHR 0xE2, CHR 0x81, CHR 0x9F],
      [CHR 0xE3, CHR 0x80, CHR 0x80]]"

text \<open>
  The number of bytes of the white-space rune a string begins with, or ends with; 0 when
  there is none.
\<close>

definition leadingSpace :: "string \<Rightarrow> nat" where
  "leadingSpace s =
     (case find (\<lambda>p. prefix p s) spaceRunes of None \<Rightarrow> 0 | Some p \<Rightarrow> length p)"

definition trailingSpace :: "string \<Rightarrow> nat" where
  "trailingSpace s =
     (case find (\<lambda>p. suffix p s) spaceRunes of None \<Rightarrow> 0 | Some p \<Rightarrow> length p)"

text \<open>
  \<open>strings.TrimSpace\<close>: the white-space runes at the front are removed, then those at
  the end.
\<close>

function TrimLeft :: "string \<Rightarrow> string" where
  "TrimLeft s = (if leadingSpace s = 0 then s else TrimLeft (drop (leadingSpace s) s))"
  by pat_completeness auto
termination
proof (relation "measure length")
  show "wf (measure length)" by simp
next
  fix s :: string
  assume a: "leadingSpace s \<noteq> 0"
  then obtain p where "find (\<lambda>p. prefix p s) spaceRunes = Some p"
    by (auto simp: leadingSpace_def split: option.splits)
  then have "prefix p s" and "p \<in> set spaceRunes"
    by (auto simp: find_Some_iff)
  then have "s \<noteq> []"
    by (auto simp: spaceRunes_def)
  with a show "(drop (leadingSpace s) s, s) \<in> measure length" by simp
qed

function TrimRight :: "string \<Rightarrow> string" where
  "TrimRight s =
     (if trailingSpace s = 0 then s else TrimRight (take (length s - trailingSpace s) s))"
  by pat_completeness auto
termination
proof (relation "measure length")
  show "wf (measure length)" by simp
next
  fix s :: string
  assume a: "trailingSpace s \<noteq> 0"
  then obtain p where "find (\<lambda>p. suffix p s) spaceRunes = Some p"
    by (auto simp: trailingSpace_def split: option.splits)
  then have "suffix p s" and "p \<in> set spaceRunes"
    by (auto simp: find_Some_iff)
  then have "s \<noteq> []"
    by (auto simp: spaceRunes_def)
  with a show "(take (length s - trailingSpace s) s, s) \<in> measure length" by simp
qed

declare TrimLeft.simps [simp del] TrimRight.simps [simp del]

definition TrimSpace :: "string \<Rightarrow> string" where
  "TrimSpace s = TrimRight (TrimLeft s)"

text \<open>
  \<open>strings.ToUpper\<close>: a string of ASCII bytes has \<open>a..z\<close> replaced by \<open>A..Z\<close>; any
  other string goes through \<open>strings.Map(unicode.ToUpper, s)\<close>. The case tables of the
  \<open>unicode\<close> package are not part of the sources: that second path is the parameter
  \<open>mapUpper\<close>.
\<close>

definition isASCII :: "char \<Rightarrow> bool" where
  "isASCII c = (\<not> digit7 c)"

definition toUpperChar :: "char \<Rightarrow> char" where
  "toUpperChar c =
     (case map_of (zip ''abcdefghijklmnopqrstuvwxyz'' ''ABCDEFGHIJKLMNOPQRSTUVWXYZ'') c of
        Some u \<Rightarrow> u
      | None \<Rightarrow> c)"

definition ToUpper :: "(string \<Rightarrow> string) \<Rightarrow> string \<Rightarrow> string" where
  "ToUpper mapUpper s = (if list_all isASCII s then map toUpperChar s else mapUpper s)"

definition HasPrefix :: "string \<Rightarrow> string \<Rightarrow> bool" where
  "HasPrefix s p = prefix p s"

definition Contains :: "string \<Rightarrow> string \<Rightarrow> bool" where
  "Contains s substr = sublist substr s"

text \<open>
  \<open>utf8.RuneCountInString\<close>: the number of runes of a string, each byte that does not
  begin a well-formed encoding counting as one rune. \<open>utf8Width\<close> is the number of bytes
  of the first rune, as \<open>utf8.DecodeRuneInString\<close> finds it, on the byte values.
\<close>

definition continuation :: "nat \<Rightarrow> bool" where
  "continuation b = (0x80 \<le> b \<and> b \<le> 0xBF)"

definition utf8Width :: "nat list \<Rightarrow> nat" where
  "utf8Width bs =
     (case bs of
        [] \<Rightarrow> 0
      | b0 # rest \<Rightarrow>
          if 0xC2 \<le> b0 \<and> b0 \<le> 0xDF
          then (case rest of b1 # _ \<Rightarrow> if continuation b1 then 2 else 1 | _ \<Rightarrow> 1)
          else if 0xE0 \<le> b0 \<and> b0 \<le> 0xEF
          then (case rest of
                  b1 # b2 # _ \<Rightarrow>
                    if (if b0 = 0xE0 then 0xA0 else 0x80) \<le> b1
                       \<and> b1 \<le> (if b0 = 0xED then 0x9F else 0xBF) \<and> continuation b2
                    then 3 else 1
                | _ \<Rightarrow> 1)
          else if 0xF0 \<le> b0 \<and> b0 \<le> 0xF4
          then (case rest of
                  b1 # b2 # b3 # _ \<Rightarrow>
                    if (if b0 = 0xF0 then 0x90 else 0x80) \<le> b1
                       \<and> b1 \<le> (if b0 = 0xF4 then 0x8F else 0xBF)
                       \<and> continuation b2 \<and> continuation b3
                    then 4 else 1
                | _ \<Rightarrow> 1)
          else 1)"

function runeCount :: "nat list \<Rightarrow> nat" where
  "runeCount [] = 0"
| "runeCount (b # bs) = Suc (runeCount (drop (utf8Width (b # bs) - 1) bs))"
  by pat_completeness auto
termination
  by (relation "measure length") simp_all

definition RuneCountInString :: "string \<Rightarrow> nat" where
  "RuneCountInString s = runeCount (map of_char s)"

text \<open>The verb \<open>%d\<close> of \<open>fmt.Sprintf\<close>: the decimal digits of an integer.\<close>

fun digits :: "nat \<Rightarrow> string" where
  "digits n = (if n < 10 then [''0123456789'' ! n]
               else digits (n div 10) @ [''0123456789'' ! (n mod 10)])"

declare digits.simps [simp del]

definition fmt_d :: "int \<Rightarrow> string" where
  "fmt_d i = (if i < 0 then CHR ''-'' # digits (nat (- i)) else digits (nat i))"

text \<open>
  The conversion \<open>int(limit)\<close> of a \<open>float64\<close>: the fraction is discarded (truncation
  towards zero). A value outside the range of \<open>int\<close> has an implementation-dependent
  result in Go; the result of the amd64 instruction is written out.
\<close>

definition go_int :: "rat \<Rightarrow> int" where
  "go_int x =
     (let t = (if 0 \<le> x then \<lfloor>x\<rfloor> else \<lceil>x\<rceil>)
      in if - (2 ^ 63) \<le> t \<and> t < 2 ^ 63 then t else - (2 ^ 63))"

section \<open>Requests and parameter extraction\<close>

text \<open>
  \<open>request.Params.Arguments\<close> is a \<open>map[string]interface{}\<close> decoded from JSON: a
  string, a number (\<open>float64\<close>, a finite rational), a boolean, \<open>null\<close>, or a nested
  array or object.
\<close>

datatype arg = AString string | ANumber rat | ABool bool | ANull | AOther

type_synonym arguments = "string \<rightharpoonup> arg"

definition getStringParam :: "arguments \<Rightarrow> string \<Rightarrow> string \<Rightarrow> string" where
  "getStringParam request key defaultValue =
     (case request key of Some (AString v) \<Rightarrow> v | _ \<Rightarrow> defaultValue)"

definition getNumberParam :: "arguments \<Rightarrow> string \<Rightarrow> rat \<Rightarrow> rat" where
  "getNumberParam request key defaultValue =
     (case request key of Some (ANumber v) \<Rightarrow> v | _ \<Rightarrow> defaultValue)"

definition getBoolParam :: "arguments \<Rightarrow> string \<Rightarrow> bool \<Rightarrow> bool" where
  "getBoolParam request key defaultValue =
     (case request key of Some (ABool v) \<Rightarrow> v | _ \<Rightarrow> defaultValue)"

text \<open>Whether an argument value has the dynamic type a getter asserts.\<close>

fun is_string :: "arg \<Rightarrow> bool" where
  "is_string (AString _) = True"
| "is_string _ = False"

fun is_number :: "arg \<Rightarrow> bool" where
  "is_number (ANumber _) = True"
| "is_number _ = False"

fun is_bool :: "arg \<Rightarrow> bool" where
  "is_bool (ABool _) = True"
| "is_bool _ = False"

section \<open>Data model\<close>

text \<open>
  A column value delivered by the database driver (\<open>interface{}\<close>): \<open>nil\<close>, an integer,
  a boolean, a text, raw bytes, or a value of any other driver type (float, numeric,
  timestamp ...), which is carried as the text that the verb \<open>%v\<close> prints for it and the
  text that \<open>%-20v\<close> prints for it.
\<close>

datatype "value" =
  VNull | VInt int | VBool bool | VText string | VBytes string | VOther string string

text \<open>An \<open>error\<close> value carries its message; a run-time panic is a separate outcome.\<close>

datatype error = Error string | Panic

type_synonym duration = "64 word"

record QueryResult =
  Rows :: "(string \<rightharpoonup> value) list"
  Columns :: "string list"
  Count :: int
  Timing :: string

record Config =
  DSN :: string
  ReadOnly :: bool
  ExplainCheck :: bool
  Transport :: string
  Port :: int
  IPAddress :: string
  MaxConnections :: "32 word"
  LogLevel :: string
  QueryTimeout :: int
  EnableMetrics :: bool
  CacheSize :: int
  PoolMaxIdleTime :: int

text \<open>The counters are \<open>int64\<close>; \<open>time.Duration\<close> is an \<open>int64\<close> of nanoseconds.\<close>

record ServerMetrics =
  QueriesExecuted :: "64 word"
  QueryErrors :: "64 word"
  ConnectionsActive :: "64 word"
  TotalResponseTime :: duration

text \<open>
  The process-wide state of the pooled server: the configuration, the metrics, and the
  statements handed to the connection pool so far, in order (the execution probe).
  Logging is not part of the state.
\<close>

record server =
  config :: Config
  metrics :: ServerMetrics
  issued :: "string list"

text \<open>
  What the pool answers to \<open>Query\<close>: an error, or the field descriptions and then, for
  each \<open>rows.Next()\<close>, what \<open>rows.Values()\<close> returns (an error or the values).
  What it answers to \<open>Exec\<close>: an error, or the number of rows affected.
\<close>

datatype query_reply = QueryError string | QueryRows "string list" "(string + value list) list"

datatype exec_reply = ExecError string | ExecOK int

text \<open>
  The surroundings of one request: the database behind the pool, the pool statistics, the
  readings of the clock (\<open>time.Since\<close> in the executor, twice on the read path; in the
  deferred \<open>updateMetrics\<close>; since the start of the process),
  \<open>time.Duration.String\<close>, and the Unicode path of \<open>strings.ToUpper\<close>. A deadline
  that expires shows as an error reply.
\<close>

record env =
  poolQuery :: "string \<Rightarrow> value list \<Rightarrow> query_reply"
  poolExec :: "string \<Rightarrow> exec_reply"
  acquiredConns :: "32 word"
  idleConns :: "32 word"
  totalConns :: "32 word"
  sinceStartTime :: duration
  sinceStartTime2 :: duration
  sinceStart :: duration
  uptime :: duration
  durationString :: "duration \<Rightarrow> string"
  unicodeUpper :: "string \<Rightarrow> string"

text \<open>
  A \<open>float64\<close> as an extended real: the rounding of the arithmetic is not modelled, the
  special values of a division by zero are.
\<close>

datatype float64 = Fin real | NaN | PosInf | NegInf

fun fdiv :: "float64 \<Rightarrow> float64 \<Rightarrow> float64" where
  "fdiv (Fin a) (Fin b) =
     (if b = 0 then (if a = 0 then NaN else if 0 < a then PosInf else NegInf)
      else Fin (a / b))"
| "fdiv NaN _ = NaN"
| "fdiv _ NaN = NaN"
| "fdiv (Fin a) _ = Fin 0"
| "fdiv PosInf (Fin b) = (if b < 0 then NegInf else PosInf)"
| "fdiv NegInf (Fin b) = (if b < 0 then PosInf else NegInf)"
| "fdiv _ _ = NaN"

definition float64_of_int64 :: "64 word \<Rightarrow> float64" where
  "float64_of_int64 w = Fin (real_of_int (sint w))"

datatype json = JInt int | JFloat float64 | JString string | JBool bool

text \<open>
  The result of a tool call: a text; the text that \<open>json.MarshalIndent\<close> prints for a
  document (the statistics, or a query result), carried as the document; or a panic that
  leaves the handler.
\<close>

datatype tool_result =
    ToolResultText string
  | ToolResultStats "(string \<times> json) list"
  | ToolResultQuery QueryResult
  | Panicked

section \<open>The pooled server: utility functions\<close>

text \<open>
  One row of \<open>executeQuery\<close>: \<open>row[columnNames[i]] = value\<close> for each value in order, a
  later assignment to the same key replacing an earlier one.
\<close>

definition mkRow :: "string list \<Rightarrow> value list \<Rightarrow> (string \<rightharpoonup> value)" where
  "mkRow columnNames vals =
     fold (\<lambda>(c, v) row. row(c \<mapsto> v)) (zip columnNames vals) Map.empty"

text \<open>
  The loop over \<open>rows.Next()\<close>: it stops at the first error of \<open>rows.Values()\<close>, and
  \<open>columnNames[i]\<close> panics where a row holds more values than there are columns.
\<close>

fun scanRows :: "string list \<Rightarrow> (string + value list) list \<Rightarrow> error + (string \<rightharpoonup> value) list" where
  "scanRows columnNames [] = Inr []"
| "scanRows columnNames (Inl err # rest) = Inl (Error err)"
| "scanRows columnNames (Inr vals # rest) =
     (if length columnNames < length vals then Inl Panic
      else case scanRows columnNames rest of
             Inl err \<Rightarrow> Inl err
           | Inr result \<Rightarrow> Inr (mkRow columnNames vals # result))"

definition countError :: "server \<Rightarrow> server" where
  "countError s = s\<lparr>metrics := (metrics s)\<lparr>QueryErrors := QueryErrors (metrics s) + 1\<rparr>\<rparr>"

definition countQuery :: "duration \<Rightarrow> server \<Rightarrow> server" where
  "countQuery d s =
     s\<lparr>metrics := (metrics s)\<lparr>QueriesExecuted := QueriesExecuted (metrics s) + 1,
                               TotalResponseTime := TotalResponseTime (metrics s) + d\<rparr>\<rparr>"

definition executeQueryWithParams ::
    "env \<Rightarrow> string \<Rightarrow> value list \<Rightarrow> server \<Rightarrow> (error + QueryResult) \<times> server" where
  "executeQueryWithParams e query args s =
     (let s1 = s\<lparr>issued := issued s @ [query]\<rparr> in
      case poolQuery e query args of
        QueryError err \<Rightarrow> (Inl (Error err), countError s1)
      | QueryRows columnNames recs \<Rightarrow>
          (case scanRows columnNames recs of
             Inl err \<Rightarrow> (Inl err, s1)
           | Inr result \<Rightarrow>
               (Inr \<lparr>Rows = result, Columns = columnNames, Count = int (length result),
                     Timing = durationString e (sinceStartTime e)\<rparr>,
                countQuery (sinceStartTime2 e) s1)))"

definition executeQuery :: "env \<Rightarrow> string \<Rightarrow> server \<Rightarrow> (error + QueryResult) \<times> server" where
  "executeQuery e query s =
     (let s1 = s\<lparr>issued := issued s @ [query]\<rparr> in
      case poolQuery e query [] of
        QueryError err \<Rightarrow> (Inl (Error err), countError s1)
      | QueryRows columnNames recs \<Rightarrow>
          (case scanRows columnNames recs of
             Inl err \<Rightarrow> (Inl err, s1)
           | Inr result \<Rightarrow>
               (Inr \<lparr>Rows = result, Columns = columnNames, Count = int (length result),
                     Timing = durationString e (sinceStartTime e)\<rparr>,
                countQuery (sinceStartTime2 e) s1)))"

definition executeWriteQuery ::
    "env \<Rightarrow> string \<Rightarrow> bool \<Rightarrow> server \<Rightarrow> (error + string) \<times> server" where
  "executeWriteQuery e query returnID s =
     (let s1 = s\<lparr>issued := issued s @ [query]\<rparr> in
      case poolExec e query of
        ExecError err \<Rightarrow> (Inl (Error err), countError s1)
      | ExecOK rowsAffected \<Rightarrow>
          (let timing = sinceStartTime e;
               response = ''Query executed successfully.'' @ [CHR 0x0A] @ ''Rows affected: ''
                          @ fmt_d rowsAffected @ [CHR 0x0A] @ ''Execution time: ''
                          @ durationString e timing;
               response = (if returnID \<and> Contains (ToUpper (unicodeUpper e) query) ''INSERT''
                           then response @ [CHR 0x0A]
                             @ ''Note: To get inserted IDs, use RETURNING clause in your INSERT statement''
                           else response)
           in (Inr response, countQuery timing s1)))"

text \<open>
  The verb \<open>%v\<close> on a column value, and \<open>%-20v\<close>: left-justified in a field 20 runes
  wide. For a byte slice the width applies to each element.
\<close>

definition joinWith :: "string \<Rightarrow> string list \<Rightarrow> string" where
  "joinWith sep xs = (case xs of [] \<Rightarrow> [] | x # rest \<Rightarrow> x @ concat (map (\<lambda>y. sep @ y) rest))"

fun fmt_v :: "value \<Rightarrow> string" where
  "fmt_v VNull = ''<nil>''"
| "fmt_v (VInt i) = fmt_d i"
| "fmt_v (VBool b) = (if b then ''true'' else ''false'')"
| "fmt_v (VText t) = t"
| "fmt_v (VBytes b) = ''['' @ joinWith '' '' (map (\<lambda>c. digits (of_char c)) b) @ '']''"
| "fmt_v (VOther t w) = t"

definition pad20 :: "string \<Rightarrow> string" where
  "pad20 t = t @ replicate (20 - RuneCountInString t) (CHR '' '')"

fun fmt_v20 :: "value \<Rightarrow> string" where
  "fmt_v20 (VBytes b) = ''['' @ joinWith '' '' (map (\<lambda>c. pad20 (digits (of_char c))) b) @ '']''"
| "fmt_v20 (VOther t w) = w"
| "fmt_v20 v = pad20 (fmt_v v)"

text \<open>
  One cell of the table: \<open>value := row[col]\<close>, \<open>NULL\<close> for \<open>nil\<close> (a key that is
  missing reads as \<open>nil\<close>), printed with \<open>%-20v\<close>.
\<close>

definition cell :: "(string \<rightharpoonup> value) \<Rightarrow> string \<Rightarrow> string" where
  "cell row col =
     (case row col of None \<Rightarrow> pad20 ''NULL'' | Some VNull \<Rightarrow> pad20 ''NULL''
      | Some v \<Rightarrow> fmt_v20 v)"

definition formatResult :: "QueryResult \<Rightarrow> string" where
  "formatResult result =
     (if length (Rows result) = 0
      then ''No results found.'' @ [CHR 0x0A] @ ''Execution time: '' @ Timing result
      else ''Results: '' @ fmt_d (Count result) @ '' rows'' @ [CHR 0x0A]
           @ ''Execution time: '' @ Timing result @ [CHR 0x0A, CHR 0x0A]
           @ joinWith '' | '' (map pad20 (Columns result)) @ [CHR 0x0A]
           @ joinWith ''-|-'' (map (\<lambda>_. replicate 20 (CHR ''-'')) (Columns result)) @ [CHR 0x0A]
           @ concat (map (\<lambda>row. joinWith '' | '' (map (cell row) (Columns result)) @ [CHR 0x0A])
                         (Rows result)))"

definition isReadOnlyQuery :: "env \<Rightarrow> string \<Rightarrow> bool" where
  "isReadOnlyQuery e query =
     (let upperQuery = ToUpper (unicodeUpper e) (TrimSpace query)
      in HasPrefix upperQuery ''SELECT'' \<or> HasPrefix upperQuery ''WITH''
         \<or> HasPrefix upperQuery ''EXPLAIN'')"

definition handleError :: "string \<Rightarrow> server \<Rightarrow> tool_result \<times> server" where
  "handleError err s = (ToolResultText (''Error: '' @ err), countError s)"

definition updateMetrics :: "env \<Rightarrow> server \<Rightarrow> server" where
  "updateMetrics e s =
     s\<lparr>metrics := (metrics s)\<lparr>TotalResponseTime := TotalResponseTime (metrics s) + sinceStart e\<rparr>\<rparr>"

text \<open>
  \<open>json.MarshalIndent\<close> refuses a \<open>NaN\<close> or an infinity; the handlers drop its error and
  return the empty text.
\<close>

fun unsupported :: "json \<Rightarrow> bool" where
  "unsupported (JFloat (Fin _)) = False"
| "unsupported (JFloat _) = True"
| "unsupported _ = False"

definition marshalStats :: "(string \<times> json) list \<Rightarrow> tool_result" where
  "marshalStats stats =
     (if list_ex (\<lambda>kv. unsupported (snd kv)) stats then ToolResultText [] else ToolResultStats stats)"

definition version :: string where
  "version = ''1.0.0''"

section \<open>The pooled server: tool handlers (package-level functions)\<close>

text \<open>
  A handler takes the surroundings, the arguments of the request and the state, and returns
  the result with the new state. \<open>defer updateMetrics(start)\<close> runs when the handler
  returns, on every path after the statement that registers it.
\<close>

definition registeredTools :: "Config \<Rightarrow> string list" where
  "registeredTools cfg =
     [''list_databases'', ''list_tables'', ''list_columns'', ''describe_table'',
      ''get_table_size'', ''list_indexes'', ''list_constraints'',
      ''read_query'', ''count_query'', ''explain_query'']
     @ (if \<not> ReadOnly cfg
        then [''write_query'', ''update_query'', ''delete_query'', ''create_table'',
              ''alter_table'', ''create_index'', ''drop_index'']
        else [])
     @ [''get_stats'', ''get_slow_queries'', ''analyze_table'']"

definition handleReadQuery :: "env \<Rightarrow> arguments \<Rightarrow> server \<Rightarrow> tool_result \<times> server" where
  "handleReadQuery e request s =
     (let (res, s') =
        (let query = getStringParam request ''query'' '''' in
         if query = '''' then handleError ''query parameter is required'' s
         else if \<not> isReadOnlyQuery e query then handleError ''only SELECT queries are allowed'' s
         else
           let limit = getNumberParam request ''limit'' 1000;
               formatJSON = getBoolParam request ''format_json'' False;
               query = (if \<not> Contains (ToUpper (unicodeUpper e) query) ''LIMIT''
                        then query @ '' LIMIT '' @ fmt_d (go_int limit) else query)
           in case executeQuery e query s of
                (Inl (Error err), s1) \<Rightarrow> handleError err s1
              | (Inl Panic, s1) \<Rightarrow> (Panicked, s1)
              | (Inr result, s1) \<Rightarrow>
                  (if formatJSON then ToolResultQuery result
                   else ToolResultText (formatResult result), s1))
      in (res, updateMetrics e s'))"

text \<open>The tail shared by the write handlers: run the statement, report its outcome.\<close>

definition runWrite :: "env \<Rightarrow> string \<Rightarrow> bool \<Rightarrow> server \<Rightarrow> tool_result \<times> server" where
  "runWrite e query returnID s =
     (case executeWriteQuery e query returnID s of
        (Inl (Error err), s1) \<Rightarrow> handleError err s1
      | (Inl Panic, s1) \<Rightarrow> (Panicked, s1)
      | (Inr result, s1) \<Rightarrow> (ToolResultText result, s1))"

definition handleWriteQuery :: "env \<Rightarrow> arguments \<Rightarrow> server \<Rightarrow> tool_result \<times> server" where
  "handleWriteQuery e request s =
     (if ReadOnly (config s) then handleError ''server is in read-only mode'' s
      else
        let (res, s') =
          (let query = getStringParam request ''query'' '''';
               returnID = getBoolParam request ''return_id'' False
           in runWrite e query returnID s)
        in (res, updateMetrics e s'))"

definition handleUpdateQuery :: "env \<Rightarrow> arguments \<Rightarrow> server \<Rightarrow> tool_result \<times> server" where
  "handleUpdateQuery e request s =
     (if ReadOnly (config s) then handleError ''server is in read-only mode'' s
      else
        let (res, s') =
          (let query = getStringParam request ''query'' '''';
               force = getBoolParam request ''force'' False
           in if \<not> force \<and> \<not> Contains (ToUpper (unicodeUpper e) query) ''WHERE''
              then handleError
                ''UPDATE queries must include a WHERE clause. Use force=true to override'' s
              else runWrite e query False s)
        in (res, updateMetrics e s'))"

definition handleDeleteQuery :: "env \<Rightarrow> arguments \<Rightarrow> server \<Rightarrow> tool_result \<times> server" where
  "handleDeleteQuery e request s =
     (if ReadOnly (config s) then handleError ''server is in read-only mode'' s
      else
        let (res, s') =
          (let query = getStringParam request ''query'' '''';
               force = getBoolParam request ''force'' False
           in if \<not> force \<and> \<not> Contains (ToUpper (unicodeUpper e) query) ''WHERE''
              then handleError
                ''DELETE queries must include a WHERE clause. Use force=true to override'' s
              else runWrite e query False s)
        in (res, updateMetrics e s'))"

definition handleCreateTable :: "env \<Rightarrow> arguments \<Rightarrow> server \<Rightarrow> tool_result \<times> server" where
  "handleCreateTable e request s =
     (if ReadOnly (config s) then handleError ''server is in read-only mode'' s
      else
        let (res, s') = runWrite e (getStringParam request ''query'' '''') False s
        in (res, updateMetrics e s'))"

definition handleAlterTable :: "env \<Rightarrow> arguments \<Rightarrow> server \<Rightarrow> tool_result \<times> server" where
  "handleAlterTable e request s =
     (if ReadOnly (config s) then handleError ''server is in read-only mode'' s
      else
        let (res, s') = runWrite e (getStringParam request ''query'' '''') False s
        in (res, updateMetrics e s'))"

definition handleCreateIndex :: "env \<Rightarrow> arguments \<Rightarrow> server \<Rightarrow> tool_result \<times> server" where
  "handleCreateIndex e request s =
     (if ReadOnly (config s) then handleError ''server is in read-only mode'' s
      else
        let (res, s') = runWrite e (getStringParam request ''query'' '''') False s
        in (res, updateMetrics e s'))"

definition handleDropIndex :: "env \<Rightarrow> arguments \<Rightarrow> server \<Rightarrow> tool_result \<times> server" where
  "handleDropIndex e request s =
     (if ReadOnly (config s) then handleError ''server is in read-only mode'' s
      else
        let (res, s') =
          (let indexName = getStringParam request ''index_name'' '''';
               schema = getStringParam request ''schema'' '''';
               query = ''DROP INDEX'';
               query = (if schema \<noteq> '''' then query @ '' '' @ schema @ ''.'' @ indexName
                        else query @ '' '' @ indexName)
           in runWrite e query False s)
        in (res, updateMetrics e s'))"

definition handleAnalyzeTable :: "env \<Rightarrow> arguments \<Rightarrow> server \<Rightarrow> tool_result \<times> server" where
  "handleAnalyzeTable e request s =
     (if ReadOnly (config s) then handleError ''server is in read-only mode'' s
      else
        let (res, s') =
          (let tableName = getStringParam request ''table_name'' '''';
               schema = getStringParam request ''schema'' ''public'';
               query = ''ANALYZE '' @ schema @ ''.'' @ tableName
           in runWrite e query False s)
        in (res, updateMetrics e s'))"

definition seconds :: "duration \<Rightarrow> float64" where
  "seconds d = Fin (real_of_int (sint d) / 1000000000)"

definition handleGetStats :: "env \<Rightarrow> arguments \<Rightarrow> server \<Rightarrow> tool_result \<times> server" where
  "handleGetStats e request s =
     (let stats =
        [(''queries_executed'', JInt (sint (QueriesExecuted (metrics s)))),
         (''query_errors'', JInt (sint (QueryErrors (metrics s)))),
         (''connections_active'', JInt (sint (acquiredConns e))),
         (''connections_idle'', JInt (sint (idleConns e))),
         (''connections_total'', JInt (sint (totalConns e))),
         (''uptime_seconds'', JFloat (seconds (uptime e))),
         (''avg_response_time_ms'',
            JFloat (fdiv (fdiv (float64_of_int64 (TotalResponseTime (metrics s)))
                               (float64_of_int64 (QueriesExecuted (metrics s))))
                         (Fin 1000000))),
         (''version'', JString version),
         (''read_only_mode'', JBool (ReadOnly (config s)))]
      in (marshalStats stats, updateMetrics e s))"

section \<open>The pooled server: tool handlers (methods of Handlers)\<close>

text \<open>
  The methods of \<open>Handlers\<close> call helper methods (\<open>h.executeQuery\<close>, \<open>h.handleError\<close>,
  \<open>h.updateMetrics\<close> ...) that live in another file of the package, which is not among
  the sources. The handlers take them as a parameter; \<open>main_utils\<close> gives them the
  package-level functions of the same names.
\<close>

record utils =
  u_executeQuery :: "env \<Rightarrow> string \<Rightarrow> server \<Rightarrow> (error + QueryResult) \<times> server"
  u_executeWriteQuery :: "env \<Rightarrow> string \<Rightarrow> bool \<Rightarrow> server \<Rightarrow> (error + string) \<times> server"
  u_formatResult :: "QueryResult \<Rightarrow> string"
  u_isReadOnlyQuery :: "env \<Rightarrow> string \<Rightarrow> bool"
  u_getStringParam :: "arguments \<Rightarrow> string \<Rightarrow> string \<Rightarrow> string"
  u_getNumberParam :: "arguments \<Rightarrow> string \<Rightarrow> rat \<Rightarrow> rat"
  u_getBoolParam :: "arguments \<Rightarrow> string \<Rightarrow> bool \<Rightarrow> bool"
  u_handleError :: "string \<Rightarrow> server \<Rightarrow> tool_result \<times> server"
  u_updateMetrics :: "env \<Rightarrow> server \<Rightarrow> server"

definition main_utils :: utils where
  "main_utils =
     \<lparr>u_executeQuery = executeQuery, u_executeWriteQuery = executeWriteQuery,
      u_formatResult = formatResult, u_isReadOnlyQuery = isReadOnlyQuery,
      u_getStringParam = getStringParam, u_getNumberParam = getNumberParam,
      u_getBoolParam = getBoolParam, u_handleError = handleError,
      u_updateMetrics = updateMetrics\<rparr>"

definition HandleReadQuery :: "utils \<Rightarrow> env \<Rightarrow> arguments \<Rightarrow> server \<Rightarrow> tool_result \<times> server" where
  "HandleReadQuery h e request s =
     (let (res, s') =
        (let query = u_getStringParam h request ''query'' '''' in
         if query = '''' then u_handleError h ''query parameter is required'' s
         else if \<not> u_isReadOnlyQuery h e query
         then u_handleError h ''only SELECT queries are allowed in read_query'' s
         else
           let limit = u_getNumberParam h request ''limit'' 1000;
               formatJSON = u_getBoolParam h request ''format_json'' False;
               query = (if \<not> Contains (ToUpper (unicodeUpper e) query) ''LIMIT''
                        then query @ '' LIMIT '' @ fmt_d (go_int limit) else query)
           in case u_executeQuery h e query s of
                (Inl (Error err), s1) \<Rightarrow> u_handleError h err s1
              | (Inl Panic, s1) \<Rightarrow> (Panicked, s1)
              | (Inr result, s1) \<Rightarrow>
                  (if formatJSON then ToolResultQuery result
                   else ToolResultText (u_formatResult h result), s1))
      in (res, u_updateMetrics h e s'))"

definition RunWrite :: "utils \<Rightarrow> env \<Rightarrow> string \<Rightarrow> bool \<Rightarrow> server \<Rightarrow> tool_result \<times> server" where
  "RunWrite h e query returnID s =
     (case u_executeWriteQuery h e query returnID s of
        (Inl (Error err), s1) \<Rightarrow> u_handleError h err s1
      | (Inl Panic, s1) \<Rightarrow> (Panicked, s1)
      | (Inr result, s1) \<Rightarrow> (ToolResultText result, s1))"

definition HandleWriteQuery :: "utils \<Rightarrow> env \<Rightarrow> arguments \<Rightarrow> server \<Rightarrow> tool_result \<times> server" where
  "HandleWriteQuery h e request s =
     (if ReadOnly (config s) then u_handleError h ''server is in read-only mode'' s
      else
        let (res, s') =
          (let query = u_getStringParam h request ''query'' '''' in
           if query = '''' then u_handleError h ''query parameter is required'' s
           else RunWrite h e query (u_getBoolParam h request ''return_id'' False) s)
        in (res, u_updateMetrics h e s'))"

definition HandleUpdateQuery :: "utils \<Rightarrow> env \<Rightarrow> arguments \<Rightarrow> server \<Rightarrow> tool_result \<times> server" where
  "HandleUpdateQuery h e request s =
     (if ReadOnly (config s) then u_handleError h ''server is in read-only mode'' s
      else
        let (res, s') =
          (let query = u_getStringParam h request ''query'' '''' in
           if query = '''' then u_handleError h ''query parameter is required'' s
           else
             let force = u_getBoolParam h request ''force'' False in
             if \<not> force \<and> \<not> Contains (ToUpper (unicodeUpper e) query) ''WHERE''
             then u_handleError h
               ''UPDATE queries must include a WHERE clause. Use force=true to override'' s
             else RunWrite h e query False s)
        in (res, u_updateMetrics h e s'))"

definition HandleDeleteQuery :: "utils \<Rightarrow> env \<Rightarrow> arguments \<Rightarrow> server \<Rightarrow> tool_result \<times> server" where
  "HandleDeleteQuery h e request s =
     (if ReadOnly (config s) then u_handleError h ''server is in read-only mode'' s
      else
        let (res, s') =
          (let query = u_getStringParam h request ''query'' '''' in
           if query = '''' then u_handleError h ''query parameter is required'' s
           else
             let force = u_getBoolParam h request ''force'' False in
             if \<not> force \<and> \<not> Contains (ToUpper (unicodeUpper e) query) ''WHERE''
             then u_handleError h
               ''DELETE queries must include a WHERE clause. Use force=true to override'' s
             else RunWrite h e query False s)
        in (res, u_updateMetrics h e s'))"

text \<open>\<open>HandleCreateTable\<close>, \<open>HandleAlterTable\<close> and \<open>HandleCreateIndex\<close> have one body.\<close>

definition HandleDDL :: "utils \<Rightarrow> env \<Rightarrow> arguments \<Rightarrow> server \<Rightarrow> tool_result \<times> server" where
  "HandleDDL h e request s =
     (if ReadOnly (config s) then u_handleError h ''server is in read-only mode'' s
      else
        let (res, s') =
          (let query = u_getStringParam h request ''query'' '''' in
           if query = '''' then u_handleError h ''query parameter is required'' s
           else RunWrite h e query False s)
        in (res, u_updateMetrics h e s'))"

definition HandleCreateTable :: "utils \<Rightarrow> env \<Rightarrow> arguments \<Rightarrow> server \<Rightarrow> tool_result \<times> server" where
  "HandleCreateTable = HandleDDL"

definition HandleAlterTable :: "utils \<Rightarrow> env \<Rightarrow> arguments \<Rightarrow> server \<Rightarrow> tool_result \<times> server" where
  "HandleAlterTable = HandleDDL"

definition HandleCreateIndex :: "utils \<Rightarrow> env \<Rightarrow> arguments \<Rightarrow> server \<Rightarrow> tool_result \<times> server" where
  "HandleCreateIndex = HandleDDL"

definition HandleDropIndex :: "utils \<Rightarrow> env \<Rightarrow> arguments \<Rightarrow> server \<Rightarrow> tool_result \<times> server" where
  "HandleDropIndex h e request s =
     (if ReadOnly (config s) then u_handleError h ''server is in read-only mode'' s
      else
        let (res, s') =
          (let indexName = u_getStringParam h request ''index_name'' '''' in
           if indexName = '''' then u_handleError h ''index_name parameter is required'' s
           else
             let schema = u_getStringParam h request ''schema'' '''';
                 query = ''DROP INDEX '';
                 query = (if schema \<noteq> '''' then query @ schema @ ''.'' @ indexName
                          else query @ indexName)
             in RunWrite h e query False s)
        in (res, u_updateMetrics h e s'))"

definition HandleAnalyzeTable :: "utils \<Rightarrow> env \<Rightarrow> arguments \<Rightarrow> server \<Rightarrow> tool_result \<times> server" where
  "HandleAnalyzeTable h e request s =
     (if ReadOnly (config s) then u_handleError h ''server is in read-only mode'' s
      else
        let (res, s') =
          (let tableName = u_getStringParam h request ''table_name'' '''' in
           if tableName = '''' then u_handleError h ''table_name parameter is required'' s
           else
             let schema = u_getStringParam h request ''schema'' ''public'';
                 query = ''ANALYZE '' @ schema @ ''.'' @ tableName
             in RunWrite h e query False s)
        in (res, u_updateMetrics h e s'))"

text \<open>
  The statistics map of \<open>Handlers.HandleGetStats\<close>: the average is added only under the
  guard \<open>QueriesExecuted > 0\<close>.
\<close>

definition HandleGetStats_stats :: "env \<Rightarrow> server \<Rightarrow> (string \<times> json) list" where
  "HandleGetStats_stats e s =
     [(''queries_executed'', JInt (sint (QueriesExecuted (metrics s)))),
      (''query_errors'', JInt (sint (QueryErrors (metrics s)))),
      (''connections_active'', JInt (sint (acquiredConns e))),
      (''connections_idle'', JInt (sint (idleConns e))),
      (''connections_total'', JInt (sint (totalConns e))),
      (''uptime_seconds'', JFloat (seconds (uptime e))),
      (''version'', JString version),
      (''read_only_mode'', JBool (ReadOnly (config s))),
      (''max_connections'', JInt (sint (MaxConnections (config s)))),
      (''query_timeout'', JInt (QueryTimeout (config s)))]
     @ (if 0 <s QueriesExecuted (metrics s)
        then [(''avg_response_time_ms'',
                JFloat (fdiv (fdiv (float64_of_int64 (TotalResponseTime (metrics s)))
                                   (float64_of_int64 (QueriesExecuted (metrics s))))
                             (Fin 1000000)))]
        else [])"

definition HandleGetStats :: "utils \<Rightarrow> env \<Rightarrow> arguments \<Rightarrow> server \<Rightarrow> tool_result \<times> server" where
  "HandleGetStats h e request s =
     (marshalStats (HandleGetStats_stats e s), u_updateMetrics h e s)"

section \<open>The sqlx server\<close>

text \<open>
  The second \<open>main\<close> package keeps its flags and the database handle in package variables
  and has no metrics. \<open>sent\<close> records the statements given to the database handle, in
  order. The database answers \<open>sqlx.Connect\<close> (an error message, or success), \<open>Queryx\<close>
  (an error, or what \<open>rows.Columns()\<close> returns and what each \<open>rows.SliceScan()\<close>
  returns) and \<open>Exec\<close> (an error, or what \<open>RowsAffected()\<close> returns).
  \<open>unicodeUpper3\<close> is the Unicode path of \<open>strings.ToUpper\<close>.
\<close>

record globals =
  DSN_flag :: string
  ReadOnly_flag :: bool
  WithExplainCheck :: bool
  DB :: bool
  sent :: "string list"

datatype queryx_reply =
  QueryxError string | QueryxRows "string + string list" "(string + value list) list"

datatype execx_reply = ExecxError string | ExecxResult "string + int"

record env3 =
  connect :: "string \<Rightarrow> string option"
  queryx :: "string \<Rightarrow> queryx_reply"
  exec :: "string \<Rightarrow> execx_reply"
  unicodeUpper3 :: "string \<Rightarrow> string"

definition StatementTypeNoExplainCheck :: string where
  "StatementTypeNoExplainCheck = ''''"

definition StatementTypeSelect :: string where
  "StatementTypeSelect = ''SELECT''"

definition StatementTypeInsert :: string where
  "StatementTypeInsert = ''INSERT''"

definition StatementTypeUpdate :: string where
  "StatementTypeUpdate = ''UPDATE''"

definition StatementTypeDelete :: string where
  "StatementTypeDelete = ''DELETE''"

definition GetDB :: "env3 \<Rightarrow> globals \<Rightarrow> (error + unit) \<times> globals" where
  "GetDB e g =
     (if DB g then (Inr (), g)
      else case connect e (DSN_flag g) of
             Some err \<Rightarrow>
               (Inl (Error (''failed to establish database connection: '' @ err)), g)
           | None \<Rightarrow> (Inr (), g\<lparr>DB := True\<rparr>))"

definition HandleExplain :: "env3 \<Rightarrow> string \<Rightarrow> string \<Rightarrow> globals \<Rightarrow> error option \<times> globals" where
  "HandleExplain e query expect g =
     (if \<not> WithExplainCheck g then (None, g)
      else case GetDB e g of
             (Inl err, g1) \<Rightarrow> (Some err, g1)
           | (Inr _, g1) \<Rightarrow>
               (let stmt = ''EXPLAIN '' @ query;
                    g2 = g1\<lparr>sent := sent g1 @ [stmt]\<rparr>
                in case queryx e stmt of
                     QueryxError err \<Rightarrow> (Some (Error err), g2)
                   | QueryxRows _ _ \<Rightarrow> (None, g2)))"

text \<open>
  One row of \<open>DoQuery\<close>: for each column in order \<open>resultRow[col] = row[i]\<close>, a byte slice
  turned into a string; \<open>row[i]\<close> panics where the row is shorter than the columns.
\<close>

definition resultRow :: "string list \<Rightarrow> value list \<Rightarrow> (string \<rightharpoonup> value)" where
  "resultRow cols row =
     fold (\<lambda>(col, v) m. m(col \<mapsto> (case v of VBytes b \<Rightarrow> VText b | _ \<Rightarrow> v)))
          (zip cols row) Map.empty"

fun sliceScanRows :: "string list \<Rightarrow> (string + value list) list \<Rightarrow> error + (string \<rightharpoonup> value) list" where
  "sliceScanRows cols [] = Inr []"
| "sliceScanRows cols (Inl err # rest) = Inl (Error err)"
| "sliceScanRows cols (Inr row # rest) =
     (if length row < length cols then Inl Panic
      else case sliceScanRows cols rest of
             Inl err \<Rightarrow> Inl err
           | Inr result \<Rightarrow> Inr (resultRow cols row # result))"

definition DoQuery ::
    "env3 \<Rightarrow> string \<Rightarrow> string \<Rightarrow> globals
       \<Rightarrow> (error + (string \<rightharpoonup> value) list \<times> string list) \<times> globals" where
  "DoQuery e query expect g =
     (case GetDB e g of
        (Inl err, g1) \<Rightarrow> (Inl err, g1)
      | (Inr _, g1) \<Rightarrow>
          (case (if 0 < length expect \<and> WithExplainCheck g1
                 then HandleExplain e query expect g1 else (None, g1)) of
             (Some err, g2) \<Rightarrow> (Inl err, g2)
           | (None, g2) \<Rightarrow>
               (let g3 = g2\<lparr>sent := sent g2 @ [query]\<rparr> in
                case queryx e query of
                  QueryxError err \<Rightarrow> (Inl (Error err), g3)
                | QueryxRows (Inl err) _ \<Rightarrow> (Inl (Error err), g3)
                | QueryxRows (Inr cols) recs \<Rightarrow>
                    (case sliceScanRows cols recs of
                       Inl err \<Rightarrow> (Inl err, g3)
                     | Inr result \<Rightarrow> (Inr (result, cols), g3)))))"

definition HandleExec :: "env3 \<Rightarrow> string \<Rightarrow> string \<Rightarrow> globals \<Rightarrow> (error + string) \<times> globals" where
  "HandleExec e query expect g =
     (case GetDB e g of
        (Inl err, g1) \<Rightarrow> (Inl err, g1)
      | (Inr _, g1) \<Rightarrow>
          (case (if 0 < length expect \<and> WithExplainCheck g1
                 then HandleExplain e query expect g1 else (None, g1)) of
             (Some err, g2) \<Rightarrow> (Inl err, g2)
           | (None, g2) \<Rightarrow>
               (let g3 = g2\<lparr>sent := sent g2 @ [query]\<rparr> in
                case exec e query of
                  ExecxError err \<Rightarrow> (Inl (Error err), g3)
                | ExecxResult (Inl err) \<Rightarrow> (Inl (Error err), g3)
                | ExecxResult (Inr ra) \<Rightarrow> (Inr (fmt_d ra @ '' rows affected''), g3))))"

text \<open>
  \<open>csv.Writer.Write\<close> with the default settings: a field is quoted when it is \<open>\.\<close>, holds
  a comma, a quote, a carriage return or a line feed, or begins with a white-space rune; a
  quote inside a quoted field is doubled. Writing to a \<open>strings.Builder\<close> does not fail.
\<close>

definition fieldNeedsQuotes :: "string \<Rightarrow> bool" where
  "fieldNeedsQuotes field =
     (if field = '''' then False
      else if field = [CHR 0x5C, CHR ''.''] then True
      else if list_ex (\<lambda>c. c = CHR 0x0A \<or> c = CHR 0x0D \<or> c = CHR 0x22 \<or> c = CHR '','') field
      then True
      else leadingSpace field \<noteq> 0)"

definition csvField :: "string \<Rightarrow> string" where
  "csvField field =
     (if \<not> fieldNeedsQuotes field then field
      else [CHR 0x22] @ concat (map (\<lambda>c. if c = CHR 0x22 then [c, c] else [c]) field)
           @ [CHR 0x22])"

definition csvWrite :: "string list \<Rightarrow> string" where
  "csvWrite record = joinWith '','' (map csvField record) @ [CHR 0x0A]"

definition MapToCSV :: "(string \<rightharpoonup> value) list \<Rightarrow> string list \<Rightarrow> error + string" where
  "MapToCSV m headers =
     Inr (csvWrite headers
          @ concat (map (\<lambda>item. csvWrite (map (\<lambda>header. case item header of
                                                            None \<Rightarrow> ''''
                                                          | Some v \<Rightarrow> fmt_v v) headers)) m))"

definition HandleQuery :: "env3 \<Rightarrow> string \<Rightarrow> string \<Rightarrow> globals \<Rightarrow> (error + string) \<times> globals" where
  "HandleQuery e query expect g =
     (case DoQuery e query expect g of
        (Inl err, g1) \<Rightarrow> (Inl err, g1)
      | (Inr (result, headers), g1) \<Rightarrow> (MapToCSV result headers, g1))"

text \<open>The handler registered for \<open>read_query\<close> (an anonymous function in \<open>main\<close>).\<close>

definition readQueryTool_handler :: "env3 \<Rightarrow> arguments \<Rightarrow> globals \<Rightarrow> tool_result \<times> globals" where
  "readQueryTool_handler e request g =
     (let query = getStringParam request ''query'' '''';
          limit = getNumberParam request ''limit'' 1000;
          upperQuery = ToUpper (unicodeUpper3 e) (TrimSpace query)
      in if \<not> HasPrefix upperQuery ''SELECT'' \<and> \<not> HasPrefix upperQuery ''WITH''
         then (ToolResultText ''Error: Only SELECT queries are allowed'', g)
         else
           let query = (if \<not> Contains upperQuery ''LIMIT''
                        then query @ '' LIMIT '' @ fmt_d (go_int limit) else query)
           in case HandleQuery e query StatementTypeSelect g of
                (Inl (Error err), g1) \<Rightarrow> (ToolResultText (''Error: '' @ err), g1)
              | (Inl Panic, g1) \<Rightarrow> (Panicked, g1)
              | (Inr result, g1) \<Rightarrow> (ToolResultText result, g1))"

section \<open>The mutating tools and sample surroundings\<close>

text \<open>
  \<open>createMCPServer\<close> pairs each tool with its handler; these are the tools that change the
  database, with their names and their handlers in both forms.
\<close>

datatype tool =
    write_query | update_query | delete_query | create_table
  | alter_table | create_index | drop_index | analyze_table

fun toolName :: "tool \<Rightarrow> string" where
  "toolName write_query = ''write_query''"
| "toolName update_query = ''update_query''"
| "toolName delete_query = ''delete_query''"
| "toolName create_table = ''create_table''"
| "toolName alter_table = ''alter_table''"
| "toolName create_index = ''create_index''"
| "toolName drop_index = ''drop_index''"
| "toolName analyze_table = ''analyze_table''"

fun handlerFor :: "tool \<Rightarrow> env \<Rightarrow> arguments \<Rightarrow> server \<Rightarrow> tool_result \<times> server" where
  "handlerFor write_query = handleWriteQuery"
| "handlerFor update_query = handleUpdateQuery"
| "handlerFor delete_query = handleDeleteQuery"
| "handlerFor create_table = handleCreateTable"
| "handlerFor alter_table = handleAlterTable"
| "handlerFor create_index = handleCreateIndex"
| "handlerFor drop_index = handleDropIndex"
| "handlerFor analyze_table = handleAnalyzeTable"

fun HandlerFor :: "tool \<Rightarrow> utils \<Rightarrow> env \<Rightarrow> arguments \<Rightarrow> server \<Rightarrow> tool_result \<times> server" where
  "HandlerFor write_query = HandleWriteQuery"
| "HandlerFor update_query = HandleUpdateQuery"
| "HandlerFor delete_query = HandleDeleteQuery"
| "HandlerFor create_table = HandleCreateTable"
| "HandlerFor alter_table = HandleAlterTable"
| "HandlerFor create_index = HandleCreateIndex"
| "HandlerFor drop_index = HandleDropIndex"
| "HandlerFor analyze_table = HandleAnalyzeTable"

text \<open>
  The driver's contract for \<open>rows.Values()\<close>: one value for each field description.
\<close>

fun full_rows :: "query_reply \<Rightarrow> bool" where
  "full_rows (QueryError _) = True"
| "full_rows (QueryRows columnNames recs) =
     list_all (\<lambda>r. case r of Inl _ \<Rightarrow> True | Inr vals \<Rightarrow> length vals = length columnNames) recs"

text \<open>
  A fresh server, a database with one table row, and a request clock. For the Unicode path
  of \<open>strings.ToUpper\<close> the samples use \<open>latinUpper\<close>, which upper-cases \<open>a..z\<close>, turns
  the long s (U+017F) into \<open>S\<close> and the dotless i (U+0131) into \<open>I\<close>, as
  \<open>unicode.ToUpper\<close> does, and copies every other byte: what
  \<open>strings.Map(unicode.ToUpper, s)\<close> returns for UTF-8 text whose other runes have no
  upper-case form.
\<close>

fun latinUpper :: "string \<Rightarrow> string" where
  "latinUpper (c1 # c2 # cs) =
     (if c1 = CHR 0xC5 \<and> c2 = CHR 0xBF then CHR ''S'' # latinUpper cs
      else if c1 = CHR 0xC4 \<and> c2 = CHR 0xB1 then CHR ''I'' # latinUpper cs
      else toUpperChar c1 # latinUpper (c2 # cs))"
| "latinUpper [c] = [toUpperChar c]"
| "latinUpper [] = []"

definition config0 :: Config where
  "config0 =
     \<lparr>DSN = ''postgres://localhost/app'', ReadOnly = False, ExplainCheck = False,
      Transport = ''stdio'', Port = 8080, IPAddress = ''localhost'', MaxConnections = 100,
      LogLevel = ''info'', QueryTimeout = 30, EnableMetrics = True, CacheSize = 1000,
      PoolMaxIdleTime = 300\<rparr>"

definition server0 :: server where
  "server0 =
     \<lparr>config = config0,
      metrics = \<lparr>QueriesExecuted = 0, QueryErrors = 0, ConnectionsActive = 0,
                 TotalResponseTime = 0\<rparr>,
      issued = []\<rparr>"

definition env0 :: env where
  "env0 =
     \<lparr>poolQuery = (\<lambda>q args. QueryRows [''id'', ''name''] [Inr [VInt 1, VText ''a'']]),
      poolExec = (\<lambda>q. ExecOK 1),
      acquiredConns = 0, idleConns = 5, totalConns = 5,
      sinceStartTime = 1000, sinceStartTime2 = 1100, sinceStart = 1500,
      uptime = 60000000000,
      durationString = (\<lambda>d. fmt_d (sint d) @ ''ns''),
      unicodeUpper = latinUpper\<rparr>"

definition globals0 :: globals where
  "globals0 =
     \<lparr>DSN_flag = ''postgres://localhost/app'', ReadOnly_flag = False,
      WithExplainCheck = True, DB = False, sent = []\<rparr>"

definition env3_0 :: env3 where
  "env3_0 =
     \<lparr>connect = (\<lambda>dsn. None),
      queryx = (\<lambda>q. if q = ''EXPLAIN SELEC 1'' then QueryxError ''syntax error''
                     else QueryxRows (Inr [''id'']) [Inr [VInt 1]]),
      exec = (\<lambda>q. ExecxResult (Inr 1)),
      unicodeUpper3 = latinUpper\<rparr>"

text \<open>A database whose reply names two columns alike.\<close>

definition env_dup :: env where
  "env_dup = env0\<lparr>poolQuery := (\<lambda>q args. QueryRows [''id'', ''id''] [Inr [VInt 1, VInt 2]])\<rparr>"

text \<open>
  A request is turned down before execution: the result is the error text for \<open>msg\<close>, no
  statement has been handed to the pool, \<open>QueryErrors\<close> went up by one and
  \<open>QueriesExecuted\<close> is as before.
\<close>

definition rejected_with :: "string \<Rightarrow> server \<Rightarrow> tool_result \<times> server \<Rightarrow> bool" where
  "rejected_with msg s out =
     (fst out = ToolResultText (''Error: '' @ msg)
      \<and> issued (snd out) = issued s
      \<and> QueryErrors (metrics (snd out)) = QueryErrors (metrics s) + 1
      \<and> QueriesExecuted (metrics (snd out)) = QueriesExecuted (metrics s))"

text \<open>
  The invariant of a \<open>QueryResult\<close>: the column sequence lists the keys of every row, one
  entry for each key (the keys of a row are the columns, and there are as many of them as
  there are columns), and \<open>Count\<close> is the number of rows.
\<close>

definition result_invariant :: "QueryResult \<Rightarrow> bool" where
  "result_invariant r =
     ((\<forall>row \<in> set (Rows r). dom row = set (Columns r) \<and> card (dom row) = length (Columns r))
      \<and> Count r = int (length (Rows r)))"

section \<open>Evaluation lemmas\<close>

lemma digits_small: "n < 10 \<Longrightarrow> digits n = [''0123456789'' ! n]"
  by (subst digits.simps) simp

lemma digits_big: "10 \<le> n \<Longrightarrow> digits n = digits (n div 10) @ [''0123456789'' ! (n mod 10)]"
  by (subst digits.simps) simp

lemma TrimLeft_stop: "leadingSpace s = 0 \<Longrightarrow> TrimLeft s = s"
  by (subst TrimLeft.simps) simp

lemma TrimLeft_step:
  "leadingSpace s \<noteq> 0 \<Longrightarrow> TrimLeft s = TrimLeft (drop (leadingSpace s) s)"
  by (subst TrimLeft.simps) simp

lemma TrimRight_stop: "trailingSpace s = 0 \<Longrightarrow> TrimRight s = s"
  by (subst TrimRight.simps) simp

lemma TrimRight_step:
  "trailingSpace s \<noteq> 0 \<Longrightarrow> TrimRight s = TrimRight (take (length s - trailingSpace s) s)"
  by (subst TrimRight.simps) simp

lemma TrimSpace_Nil: "TrimSpace [] = []"
  by (simp add: TrimSpace_def TrimLeft_stop TrimRight_stop leadingSpace_def trailingSpace_def
                spaceRunes_def)

lemma ToUpper_Nil: "ToUpper mapUpper [] = []"
  by (simp add: ToUpper_def)

lemmas string_eval =
  ToUpper_def isASCII_def toUpperChar_def TrimSpace_def TrimLeft_stop TrimLeft_step
  TrimRight_stop TrimRight_step leadingSpace_def trailingSpace_def spaceRunes_def
  suffix_to_prefix HasPrefix_def Contains_def sublist_code fmt_d_def digits_small digits_big

lemmas param_eval = getStringParam_def getNumberParam_def getBoolParam_def

lemma countError_fields:
  "issued (countError s) = issued s"
  "config (countError s) = config s"
  "QueryErrors (metrics (countError s)) = QueryErrors (metrics s) + 1"
  "QueriesExecuted (metrics (countError s)) = QueriesExecuted (metrics s)"
  "TotalResponseTime (metrics (countError s)) = TotalResponseTime (metrics s)"
  by (simp_all add: countError_def)

lemma updateMetrics_fields:
  "issued (updateMetrics e s) = issued s"
  "config (updateMetrics e s) = config s"
  "QueryErrors (metrics (updateMetrics e s)) = QueryErrors (metrics s)"
  "QueriesExecuted (metrics (updateMetrics e s)) = QueriesExecuted (metrics s)"
  "TotalResponseTime (metrics (updateMetrics e s)) = TotalResponseTime (metrics s) + sinceStart e"
  by (simp_all add: updateMetrics_def)

lemma main_utils_sel:
  "u_executeQuery main_utils = executeQuery"
  "u_executeWriteQuery main_utils = executeWriteQuery"
  "u_formatResult main_utils = formatResult"
  "u_isReadOnlyQuery main_utils = isReadOnlyQuery"
  "u_getStringParam main_utils = getStringParam"
  "u_getNumberParam main_utils = getNumberParam"
  "u_getBoolParam main_utils = getBoolParam"
  "u_handleError main_utils = handleError"
  "u_updateMetrics main_utils = updateMetrics"
  by (simp_all add: main_utils_def)

lemma rejected_handleError: "rejected_with msg s (handleError msg s)"
  by (simp add: rejected_with_def handleError_def countError_fields)

lemma rejected_deferred:
  "rejected_with msg s (case handleError msg s of (res, s') \<Rightarrow> (res, updateMetrics e s'))"
  by (simp add: rejected_with_def handleError_def countError_fields updateMetrics_fields)

lemma deferred_time:
  "TotalResponseTime (metrics (snd (case handleError msg s of (res, s') \<Rightarrow> (res, updateMetrics e s'))))
     = TotalResponseTime (metrics s) + sinceStart e"
  by (simp add: handleError_def countError_fields updateMetrics_fields)

lemmas sample_eval = env0_def server0_def config0_def globals0_def env3_0_def

lemma executeQuery_issued: "issued (snd (executeQuery e q s)) = issued s @ [q]"
  by (simp add: executeQuery_def Let_def countError_def countQuery_def
           split: query_reply.splits sum.splits)

lemma isReadOnlyQuery_nonempty: "isReadOnlyQuery e q \<Longrightarrow> q \<noteq> ''''"
  by (auto simp: isReadOnlyQuery_def TrimSpace_Nil ToUpper_Nil HasPrefix_def)

lemma read_tail_issued:
  "issued (snd (case (case executeQuery e q s of
                        (Inl (Error err), s1) \<Rightarrow> handleError err s1
                      | (Inl Panic, s1) \<Rightarrow> (Panicked, s1)
                      | (Inr result, s1) \<Rightarrow> (f result, s1))
                 of (res, s') \<Rightarrow> (res, updateMetrics e' s')))
     = issued s @ [q]"
proof -
  obtain r s1 where ex: "executeQuery e q s = (r, s1)"
    by (cases "executeQuery e q s")
  then have "issued s1 = issued s @ [q]"
    using executeQuery_issued [of e q s] by simp
  with ex show ?thesis
    by (cases r rule: sum.exhaust [case_names L R])
       (simp_all add: handleError_def countError_fields updateMetrics_fields split: error.splits)
qed

lemma handleReadQuery_admitted:
  assumes "isReadOnlyQuery e (getStringParam request ''query'' '''')"
  shows "issued (snd (handleReadQuery e request s))
           = issued s @ [if Contains (ToUpper (unicodeUpper e) (getStringParam request ''query'' '''')) ''LIMIT''
                         then getStringParam request ''query'' ''''
                         else getStringParam request ''query'' '''' @ '' LIMIT ''
                              @ fmt_d (go_int (getNumberParam request ''limit'' 1000))]"
  using assms isReadOnlyQuery_nonempty [OF assms]
  by (simp add: handleReadQuery_def Let_def read_tail_issued)

lemma HandleReadQuery_admitted:
  assumes "isReadOnlyQuery e (getStringParam request ''query'' '''')"
  shows "issued (snd (HandleReadQuery main_utils e request s))
           = issued s @ [if Contains (ToUpper (unicodeUpper e) (getStringParam request ''query'' '''')) ''LIMIT''
                         then getStringParam request ''query'' ''''
                         else getStringParam request ''query'' '''' @ '' LIMIT ''
                              @ fmt_d (go_int (getNumberParam request ''limit'' 1000))]"
  using assms isReadOnlyQuery_nonempty [OF assms]
  unfolding HandleReadQuery_def main_utils_sel
  by (simp add: Let_def read_tail_issued)

lemma handleReadQuery_rejected:
  assumes "\<not> isReadOnlyQuery e (getStringParam request ''query'' '''')"
  shows "rejected_with (if getStringParam request ''query'' '''' = ''''
                        then ''query parameter is required''
                        else ''only SELECT queries are allowed'')
           s (handleReadQuery e request s)"
  using assms by (simp add: handleReadQuery_def Let_def rejected_deferred)

lemma HandleReadQuery_rejected:
  assumes "\<not> isReadOnlyQuery e (getStringParam request ''query'' '''')"
  shows "rejected_with (if getStringParam request ''query'' '''' = ''''
                        then ''query parameter is required''
                        else ''only SELECT queries are allowed in read_query'')
           s (HandleReadQuery main_utils e request s)"
  using assms unfolding HandleReadQuery_def main_utils_sel
  by (simp add: Let_def rejected_deferred)

lemma GetDB_ok:
  assumes "GetDB e g = (Inr u, g1)"
  shows "sent g1 = sent g" and "WithExplainCheck g1 = WithExplainCheck g"
    and "GetDB e g1 = (Inr (), g1)"
  using assms by (auto simp: GetDB_def split: if_splits option.splits)

lemma GetDB_fail: "GetDB e g = (Inl err, g1) \<Longrightarrow> g1 = g"
  by (auto simp: GetDB_def split: if_splits option.splits)

lemma HandleExplain_connected:
  assumes "GetDB e g1 = (Inr (), g1)" and "WithExplainCheck g1"
  shows "HandleExplain e query expect g1
           = (case queryx e (''EXPLAIN '' @ query) of
                QueryxError err \<Rightarrow> Some (Error err)
              | QueryxRows c r \<Rightarrow> None,
              g1\<lparr>sent := sent g1 @ [''EXPLAIN '' @ query]\<rparr>)"
  using assms by (simp add: HandleExplain_def Let_def split: queryx_reply.splits)

lemma DoQuery_sent_explain:
  assumes "GetDB e g = (Inr u, g1)" and "WithExplainCheck g" and "expect \<noteq> ''''"
  shows "\<exists>rest. sent (snd (DoQuery e query expect g)) = sent g @ (''EXPLAIN '' @ query) # rest"
  using assms GetDB_ok [OF assms(1)]
  by (cases "queryx e (''EXPLAIN '' @ query)")
     (auto simp: DoQuery_def HandleExplain_connected Let_def
           split: queryx_reply.splits sum.splits)

lemma HandleExec_sent_explain:
  assumes "GetDB e g = (Inr u, g1)" and "WithExplainCheck g" and "expect \<noteq> ''''"
  shows "\<exists>rest. sent (snd (HandleExec e query expect g)) = sent g @ (''EXPLAIN '' @ query) # rest"
  using assms GetDB_ok [OF assms(1)]
  by (cases "queryx e (''EXPLAIN '' @ query)")
     (auto simp: HandleExec_def HandleExplain_connected Let_def
           split: execx_reply.splits sum.splits)

lemma DoQuery_explain_fails:
  assumes "GetDB e g = (Inr u, g1)" and "WithExplainCheck g" and "expect \<noteq> ''''"
      and "queryx e (''EXPLAIN '' @ query) = QueryxError err"
  shows "DoQuery e query expect g
           = (Inl (Error err), g1\<lparr>sent := sent g @ [''EXPLAIN '' @ query]\<rparr>)"
  using assms GetDB_ok [OF assms(1)]
  by (simp add: DoQuery_def HandleExplain_connected)

lemma HandleExec_explain_fails:
  assumes "GetDB e g = (Inr u, g1)" and "WithExplainCheck g" and "expect \<noteq> ''''"
      and "queryx e (''EXPLAIN '' @ query) = QueryxError err"
  shows "HandleExec e query expect g
           = (Inl (Error err), g1\<lparr>sent := sent g @ [''EXPLAIN '' @ query]\<rparr>)"
  using assms GetDB_ok [OF assms(1)]
  by (simp add: HandleExec_def HandleExplain_connected)

lemma dom_fold_upd:
  "dom (fold (\<lambda>(c, v) m. m(c \<mapsto> f v)) xs m0) = dom m0 \<union> fst ` set xs"
  by (induction xs arbitrary: m0) auto

lemma map_fst_zip_length: "map fst (zip xs ys) = take (length ys) xs"
  by (induction xs ys rule: list_induct2') auto

lemma dom_mkRow: "dom (mkRow cols vals) = set (take (length vals) cols)"
proof -
  have "dom (fold (\<lambda>(c, v) m. m(c \<mapsto> id v)) (zip cols vals) Map.empty)
          = fst ` set (zip cols vals)"
    by (simp only: dom_fold_upd dom_empty Un_empty_left)
  also have "\<dots> = set (map fst (zip cols vals))"
    by simp
  also have "\<dots> = set (take (length vals) cols)"
    by (simp only: map_fst_zip_length)
  finally show ?thesis
    by (simp add: mkRow_def)
qed

lemma dom_resultRow: "dom (resultRow cols row) = set (take (length row) cols)"
proof -
  have "dom (resultRow cols row) = fst ` set (zip cols row)"
    unfolding resultRow_def by (simp only: dom_fold_upd dom_empty Un_empty_left)
  also have "\<dots> = set (map fst (zip cols row))"
    by simp
  also have "\<dots> = set (take (length row) cols)"
    by (simp only: map_fst_zip_length)
  finally show ?thesis .
qed

lemma scanRows_dom:
  assumes "scanRows cols recs = Inr result"
      and "list_all (\<lambda>r. case r of Inl _ \<Rightarrow> True | Inr vals \<Rightarrow> length vals = length cols) recs"
  shows "\<forall>row \<in> set result. dom row = set cols"
  using assms
proof (induction recs arbitrary: result)
  case Nil
  then show ?case by simp
next
  case (Cons rec rest)
  show ?case
  proof (cases rec)
    case (Inl err)
    with Cons.prems(1) show ?thesis by simp
  next
    case (Inr vals)
    with Cons.prems obtain x2 where r: "scanRows cols rest = Inr x2"
      and res: "result = mkRow cols vals # x2" and len: "length vals = length cols"
      by (auto split: if_splits sum.splits)
    from Cons.prems(2)
    have "list_all (\<lambda>r. case r of Inl _ \<Rightarrow> True | Inr vals \<Rightarrow> length vals = length cols) rest"
      by simp
    from Cons.IH [OF r this] have "\<forall>row \<in> set x2. dom row = set cols" .
    moreover have "dom (mkRow cols vals) = set cols"
      by (simp add: dom_mkRow len)
    ultimately show ?thesis using res by simp
  qed
qed

lemma sliceScanRows_dom:
  assumes "sliceScanRows cols recs = Inr result"
  shows "\<forall>row \<in> set result. dom row = set cols"
  using assms
proof (induction recs arbitrary: result)
  case Nil
  then show ?case by simp
next
  case (Cons rec rest)
  show ?case
  proof (cases rec)
    case (Inl err)
    with Cons.prems(1) show ?thesis by simp
  next
    case (Inr row)
    with Cons.prems obtain x2 where r: "sliceScanRows cols rest = Inr x2"
      and res: "result = resultRow cols row # x2" and len: "length cols \<le> length row"
      by (auto split: if_splits sum.splits)
    from Cons.IH [OF r] have "\<forall>row \<in> set x2. dom row = set cols" .
    moreover have "dom (resultRow cols row) = set cols"
      by (simp add: dom_resultRow len)
    ultimately show ?thesis using res by simp
  qed
qed

lemma executeQueryWithParams_keys:
  assumes "full_rows (poolQuery e query args)"
      and "executeQueryWithParams e query args s = (Inr r, s')"
  shows "(\<forall>row \<in> set (Rows r). dom row = set (Columns r)) \<and> Count r = int (length (Rows r))"
proof (cases "poolQuery e query args")
  case (QueryError err)
  with assms(2) show ?thesis
    by (simp add: executeQueryWithParams_def Let_def)
next
  case (QueryRows cols recs)
  show ?thesis
  proof (cases "scanRows cols recs")
    case (Inl err)
    with QueryRows assms(2) show ?thesis
      by (simp add: executeQueryWithParams_def Let_def)
  next
    case (Inr result)
    from assms(1) QueryRows
    have "list_all (\<lambda>r. case r of Inl _ \<Rightarrow> True | Inr vals \<Rightarrow> length vals = length cols) recs"
      by simp
    from scanRows_dom [OF Inr this] have keys: "\<forall>row \<in> set result. dom row = set cols" .
    from Inr QueryRows assms(2)
    have "Rows r = result" and "Columns r = cols" and "Count r = int (length result)"
      by (auto simp: executeQueryWithParams_def Let_def)
    with keys show ?thesis
      by simp
  qed
qed

lemma executeQueryWithParams_invariant:
  assumes "full_rows (poolQuery e query args)"
      and "executeQueryWithParams e query args s = (Inr r, s')"
      and "distinct (Columns r)"
  shows "result_invariant r"
  using executeQueryWithParams_keys [OF assms(1) assms(2)] assms(3)
  by (simp add: result_invariant_def distinct_card)

lemma executeQuery_eq: "executeQuery e query s = executeQueryWithParams e query [] s"
  by (simp add: executeQuery_def executeQueryWithParams_def)

lemma DoQuery_keys:
  assumes "DoQuery e query expect g = (Inr (result, cols), g')"
  shows "\<forall>row \<in> set result. dom row = set cols"
proof -
  from assms obtain recs where "sliceScanRows cols recs = Inr result"
    by (auto simp: DoQuery_def Let_def
             split: prod.splits sum.splits option.splits queryx_reply.splits if_splits)
  then show ?thesis by (rule sliceScanRows_dom)
qed

section \<open>Parameter extraction\<close>

text \<open>
  Claim C10. When a declared argument is absent from the argument mapping, or its value has
  a dynamic type other than the one the getter asserts (string, number or boolean), the
  getter returns the default value the handler passes; it has no error outcome. A
  \<open>limit\<close> of the wrong type makes \<open>handleReadQuery\<close> behave as if no limit were given.
\<close>

theorem param_default_on_absent_or_wrong_type:
  "((\<forall>v. request key = Some v \<longrightarrow> \<not> is_string v)
      \<longrightarrow> getStringParam request key ds = ds)
   \<and> ((\<forall>v. request key = Some v \<longrightarrow> \<not> is_number v)
      \<longrightarrow> getNumberParam request key dn = dn)
   \<and> ((\<forall>v. request key = Some v \<longrightarrow> \<not> is_bool v)
      \<longrightarrow> getBoolParam request key db = db)
   \<and> (\<not> is_number w \<longrightarrow>
        handleReadQuery e (request(''limit'' \<mapsto> w)) s
          = handleReadQuery e (request(''limit'' := None)) s)"
proof -
  have s: "(\<forall>v. request key = Some v \<longrightarrow> \<not> is_string v)
             \<longrightarrow> getStringParam request key ds = ds"
    by (cases "request key"; simp add: getStringParam_def split: arg.splits)
  have n: "(\<forall>v. request key = Some v \<longrightarrow> \<not> is_number v)
             \<longrightarrow> getNumberParam request key dn = dn"
    by (cases "request key"; simp add: getNumberParam_def split: arg.splits)
  have b: "(\<forall>v. request key = Some v \<longrightarrow> \<not> is_bool v)
             \<longrightarrow> getBoolParam request key db = db"
    by (cases "request key"; simp add: getBoolParam_def split: arg.splits)
  have h: "\<not> is_number w \<longrightarrow>
        handleReadQuery e (request(''limit'' \<mapsto> w)) s
          = handleReadQuery e (request(''limit'' := None)) s"
    by (cases w; simp add: handleReadQuery_def param_eval Let_def)
  from s n b h show ?thesis by blast
qed

theorem param_default_witness:
  "getStringParam [''schema'' \<mapsto> ANumber 7] ''schema'' ''public'' = ''public''
   \<and> getNumberParam [''limit'' \<mapsto> AString ''5''] ''limit'' 1000 = 1000
   \<and> getBoolParam Map.empty ''force'' False = False
   \<and> handleReadQuery env0 [''query'' \<mapsto> AString ''SELECT 1'', ''limit'' \<mapsto> AString ''5''] server0
       = handleReadQuery env0 ([''query'' \<mapsto> AString ''SELECT 1''](''limit'' := None)) server0"
  using param_default_on_absent_or_wrong_type
          [of "[''schema'' \<mapsto> ANumber 7]" "''schema''" "''public''" 1000 False
              "AString ''5''" env0 server0]
        param_default_on_absent_or_wrong_type
          [of "[''limit'' \<mapsto> AString ''5'']" "''limit''" "''public''" 1000 False
              "AString ''5''" env0 server0]
        param_default_on_absent_or_wrong_type
          [of "Map.empty" "''force''" "''public''" 1000 False "AString ''5''" env0 server0]
        param_default_on_absent_or_wrong_type
          [of "[''query'' \<mapsto> AString ''SELECT 1'']" "''force''" "''public''" 1000 False
              "AString ''5''" env0 server0]
  by simp

section \<open>The WHERE-clause gate\<close>

text \<open>
  Claim C2. An \<open>update_query\<close> or \<open>delete_query\<close> request whose statement does not
  contain \<open>WHERE\<close> after upper-casing and whose \<open>force\<close> flag is unset is answered with an
  error text; no statement is handed to the pool, \<open>QueryErrors\<close> goes up by one and
  \<open>QueriesExecuted\<close> stays as it was. This holds for the package-level handlers and for
  the methods of \<open>Handlers\<close>.
\<close>

theorem where_gate_rejects:
  assumes "\<not> Contains (ToUpper (unicodeUpper e) (getStringParam request ''query'' '''')) ''WHERE''"
      and "\<not> getBoolParam request ''force'' False"
  shows "rejected_with
           (if ReadOnly (config s) then ''server is in read-only mode''
            else ''UPDATE queries must include a WHERE clause. Use force=true to override'')
           s (handleUpdateQuery e request s)
       \<and> rejected_with
           (if ReadOnly (config s) then ''server is in read-only mode''
            else ''DELETE queries must include a WHERE clause. Use force=true to override'')
           s (handleDeleteQuery e request s)
       \<and> rejected_with
           (if ReadOnly (config s) then ''server is in read-only mode''
            else if getStringParam request ''query'' '''' = '''' then ''query parameter is required''
            else ''UPDATE queries must include a WHERE clause. Use force=true to override'')
           s (HandleUpdateQuery main_utils e request s)
       \<and> rejected_with
           (if ReadOnly (config s) then ''server is in read-only mode''
            else if getStringParam request ''query'' '''' = '''' then ''query parameter is required''
            else ''DELETE queries must include a WHERE clause. Use force=true to override'')
           s (HandleDeleteQuery main_utils e request s)"
proof -
  have 1: "rejected_with
           (if ReadOnly (config s) then ''server is in read-only mode''
            else ''UPDATE queries must include a WHERE clause. Use force=true to override'')
           s (handleUpdateQuery e request s)"
    using assms by (simp add: handleUpdateQuery_def rejected_handleError rejected_deferred)
  have 2: "rejected_with
           (if ReadOnly (config s) then ''server is in read-only mode''
            else ''DELETE queries must include a WHERE clause. Use force=true to override'')
           s (handleDeleteQuery e request s)"
    using assms by (simp add: handleDeleteQuery_def rejected_handleError rejected_deferred)
  have 3: "rejected_with
           (if ReadOnly (config s) then ''server is in read-only mode''
            else if getStringParam request ''query'' '''' = '''' then ''query parameter is required''
            else ''UPDATE queries must include a WHERE clause. Use force=true to override'')
           s (HandleUpdateQuery main_utils e request s)"
    using assms
    by (simp add: HandleUpdateQuery_def main_utils_sel rejected_handleError rejected_deferred
                  Let_def)
  have 4: "rejected_with
           (if ReadOnly (config s) then ''server is in read-only mode''
            else if getStringParam request ''query'' '''' = '''' then ''query parameter is required''
            else ''DELETE queries must include a WHERE clause. Use force=true to override'')
           s (HandleDeleteQuery main_utils e request s)"
    using assms
    by (simp add: HandleDeleteQuery_def main_utils_sel rejected_handleError rejected_deferred
                  Let_def)
  from 1 2 3 4 show ?thesis by blast
qed

theorem where_gate_rejects_witness:
  "\<not> Contains (ToUpper (unicodeUpper env0) (getStringParam [''query'' \<mapsto> AString ''UPDATE t SET x=1''] ''query'' ''''))
        ''WHERE''
   \<and> \<not> getBoolParam [''query'' \<mapsto> AString ''UPDATE t SET x=1''] ''force'' False
   \<and> rejected_with ''UPDATE queries must include a WHERE clause. Use force=true to override''
        server0 (handleUpdateQuery env0 [''query'' \<mapsto> AString ''UPDATE t SET x=1''] server0)
   \<and> rejected_with ''DELETE queries must include a WHERE clause. Use force=true to override''
        server0
        (HandleDeleteQuery main_utils env0 [''query'' \<mapsto> AString ''UPDATE t SET x=1''] server0)"
proof -
  have a: "\<not> Contains (ToUpper (unicodeUpper env0) (getStringParam [''query'' \<mapsto> AString ''UPDATE t SET x=1'']
                                   ''query'' '''')) ''WHERE''"
    by (simp add: param_eval string_eval)
  have b: "\<not> getBoolParam [''query'' \<mapsto> AString ''UPDATE t SET x=1''] ''force'' False"
    by (simp add: param_eval)
  have c: "\<not> ReadOnly (config server0)"
    by (simp add: sample_eval)
  have d: "getStringParam [''query'' \<mapsto> AString ''UPDATE t SET x=1''] ''query'' '''' \<noteq> ''''"
    by (simp add: param_eval)
  from where_gate_rejects [OF a b, where s = server0] a b c d show ?thesis
    by simp
qed
text \<open>
  Claim C3 as stated: a request turned down by the WHERE-clause gate leaves the cumulative
  response time unchanged. It fails: \<open>updateMetrics\<close> is deferred before the gate, so the
  time of the rejected request is added.
\<close>

theorem where_gate_time_counterexample:
  "fst (handleUpdateQuery env0 [''query'' \<mapsto> AString ''UPDATE t SET x=1''] server0)
     = ToolResultText
         ''Error: UPDATE queries must include a WHERE clause. Use force=true to override''
   \<and> TotalResponseTime (metrics server0) = 0
   \<and> TotalResponseTime
        (metrics (snd (handleUpdateQuery env0 [''query'' \<mapsto> AString ''UPDATE t SET x=1''] server0)))
       = 1500"
  by (simp add: handleUpdateQuery_def param_eval string_eval sample_eval handleError_def
                countError_def updateMetrics_def)

text \<open>
  Claim C3, amended. When an \<open>update_query\<close> or \<open>delete_query\<close> request is turned down
  by the WHERE-clause gate (the server is not read-only, \<open>force\<close> is unset, the statement
  holds no \<open>WHERE\<close>), the deferred \<open>updateMetrics\<close> adds the time the handler took to the
  cumulative response time; the error counter goes up by one, \<open>QueriesExecuted\<close> is as
  before and no statement is handed to the pool.
\<close>

theorem where_gate_records_handler_time:
  assumes "\<not> ReadOnly (config s)"
      and "\<not> Contains (ToUpper (unicodeUpper e) (getStringParam request ''query'' '''')) ''WHERE''"
      and "\<not> getBoolParam request ''force'' False"
  shows "TotalResponseTime (metrics (snd (handleUpdateQuery e request s)))
           = TotalResponseTime (metrics s) + sinceStart e
       \<and> TotalResponseTime (metrics (snd (handleDeleteQuery e request s)))
           = TotalResponseTime (metrics s) + sinceStart e
       \<and> TotalResponseTime (metrics (snd (HandleUpdateQuery main_utils e request s)))
           = TotalResponseTime (metrics s) + sinceStart e
       \<and> TotalResponseTime (metrics (snd (HandleDeleteQuery main_utils e request s)))
           = TotalResponseTime (metrics s) + sinceStart e
       \<and> rejected_with
             ''UPDATE queries must include a WHERE clause. Use force=true to override''
             s (handleUpdateQuery e request s)
       \<and> rejected_with
             ''DELETE queries must include a WHERE clause. Use force=true to override''
             s (handleDeleteQuery e request s)
       \<and> rejected_with
             (if getStringParam request ''query'' '''' = '''' then ''query parameter is required''
              else ''UPDATE queries must include a WHERE clause. Use force=true to override'')
             s (HandleUpdateQuery main_utils e request s)
       \<and> rejected_with
             (if getStringParam request ''query'' '''' = '''' then ''query parameter is required''
              else ''DELETE queries must include a WHERE clause. Use force=true to override'')
             s (HandleDeleteQuery main_utils e request s)"
proof -
  have 1: "TotalResponseTime (metrics (snd (handleUpdateQuery e request s)))
           = TotalResponseTime (metrics s) + sinceStart e"
    using assms by (simp add: handleUpdateQuery_def deferred_time)
  have 2: "TotalResponseTime (metrics (snd (handleDeleteQuery e request s)))
           = TotalResponseTime (metrics s) + sinceStart e"
    using assms by (simp add: handleDeleteQuery_def deferred_time)
  have 3: "TotalResponseTime (metrics (snd (HandleUpdateQuery main_utils e request s)))
           = TotalResponseTime (metrics s) + sinceStart e"
    using assms by (simp add: HandleUpdateQuery_def main_utils_sel deferred_time Let_def)
  have 4: "TotalResponseTime (metrics (snd (HandleDeleteQuery main_utils e request s)))
           = TotalResponseTime (metrics s) + sinceStart e"
    using assms by (simp add: HandleDeleteQuery_def main_utils_sel deferred_time Let_def)
  have 5: "rejected_with
             ''UPDATE queries must include a WHERE clause. Use force=true to override''
             s (handleUpdateQuery e request s)"
    using assms by (simp add: handleUpdateQuery_def rejected_deferred)
  have 6: "rejected_with
             ''DELETE queries must include a WHERE clause. Use force=true to override''
             s (handleDeleteQuery e request s)"
    using assms by (simp add: handleDeleteQuery_def rejected_deferred)
  have 7: "rejected_with
             (if getStringParam request ''query'' '''' = '''' then ''query parameter is required''
              else ''UPDATE queries must include a WHERE clause. Use force=true to override'')
             s (HandleUpdateQuery main_utils e request s)"
    using assms
    by (simp add: HandleUpdateQuery_def main_utils_sel rejected_deferred Let_def)
  have 8: "rejected_with
             (if getStringParam request ''query'' '''' = '''' then ''query parameter is required''
              else ''DELETE queries must include a WHERE clause. Use force=true to override'')
             s (HandleDeleteQuery main_utils e request s)"
    using assms
    by (simp add: HandleDeleteQuery_def main_utils_sel rejected_deferred Let_def)
  from 1 2 3 4 5 6 7 8 show ?thesis by blast
qed

theorem where_gate_records_handler_time_witness:
  "\<not> ReadOnly (config server0)
   \<and> \<not> Contains (ToUpper (unicodeUpper env0)
                    (getStringParam [''query'' \<mapsto> AString ''DELETE FROM t''] ''query'' ''''))
        ''WHERE''
   \<and> \<not> getBoolParam [''query'' \<mapsto> AString ''DELETE FROM t''] ''force'' False
   \<and> TotalResponseTime
        (metrics (snd (handleDeleteQuery env0 [''query'' \<mapsto> AString ''DELETE FROM t''] server0)))
       = 1500
   \<and> rejected_with ''DELETE queries must include a WHERE clause. Use force=true to override''
        server0 (handleDeleteQuery env0 [''query'' \<mapsto> AString ''DELETE FROM t''] server0)"
proof -
  have a: "\<not> ReadOnly (config server0)"
    by (simp add: sample_eval)
  have b: "\<not> Contains (ToUpper (unicodeUpper env0)
                          (getStringParam [''query'' \<mapsto> AString ''DELETE FROM t''] ''query'' ''''))
             ''WHERE''"
    by (simp add: param_eval string_eval)
  have c: "\<not> getBoolParam [''query'' \<mapsto> AString ''DELETE FROM t''] ''force'' False"
    by (simp add: param_eval)
  have d: "TotalResponseTime (metrics server0) + sinceStart env0 = 1500"
    by (simp add: sample_eval)
  from where_gate_records_handler_time [OF a b c] a b c d show ?thesis
    by simp
qed

section \<open>Read-only mode\<close>

text \<open>
  Claim C4. When the read-only flag of the configuration is set, each of the eight mutating
  tools answers with the read-only error, whatever its arguments (with or without a
  \<open>WHERE\<close> clause, with or without \<open>force\<close>): the flag is tested first, before the
  WHERE-clause gate, no statement is handed to the pool, and only the error counter moves.
  All of these tools but \<open>analyze_table\<close> are not even registered in that mode.
\<close>

theorem read_only_rejects_mutating:
  assumes "ReadOnly (config s)"
  shows "handlerFor t e request s
           = (ToolResultText ''Error: server is in read-only mode'', countError s)
       \<and> HandlerFor t h e request s = u_handleError h ''server is in read-only mode'' s
       \<and> HandlerFor t main_utils e request s
           = (ToolResultText ''Error: server is in read-only mode'', countError s)
       \<and> issued (snd (handlerFor t e request s)) = issued s
       \<and> (t \<noteq> analyze_table \<longrightarrow> toolName t \<notin> set (registeredTools (config s)))"
proof -
  have 1: "handlerFor t e request s
           = (ToolResultText ''Error: server is in read-only mode'', countError s)"
    using assms
    by (cases t)
       (simp_all add: handleWriteQuery_def handleUpdateQuery_def handleDeleteQuery_def
          handleCreateTable_def handleAlterTable_def handleCreateIndex_def
          handleDropIndex_def handleAnalyzeTable_def handleError_def)
  have 2: "HandlerFor t h' e request s = u_handleError h' ''server is in read-only mode'' s"
    for h'
    using assms
    by (cases t)
       (simp_all add: HandleWriteQuery_def HandleUpdateQuery_def HandleDeleteQuery_def
          HandleCreateTable_def HandleAlterTable_def HandleCreateIndex_def HandleDDL_def
          HandleDropIndex_def HandleAnalyzeTable_def)
  have 3: "HandlerFor t main_utils e request s
           = (ToolResultText ''Error: server is in read-only mode'', countError s)"
    by (simp add: 2 main_utils_sel handleError_def)
  have 4: "issued (snd (handlerFor t e request s)) = issued s"
    by (simp add: 1 countError_fields)
  have 5: "t \<noteq> analyze_table \<longrightarrow> toolName t \<notin> set (registeredTools (config s))"
    using assms by (cases t) (simp_all add: registeredTools_def)
  from 1 2 3 4 5 show ?thesis by blast
qed

theorem read_only_rejects_mutating_witness:
  "ReadOnly (config (server0\<lparr>config := config0\<lparr>ReadOnly := True\<rparr>\<rparr>))
   \<and> handlerFor update_query env0
        [''query'' \<mapsto> AString ''UPDATE t SET x=1 WHERE id=5'', ''force'' \<mapsto> ABool True]
        (server0\<lparr>config := config0\<lparr>ReadOnly := True\<rparr>\<rparr>)
       = (ToolResultText ''Error: server is in read-only mode'',
          countError (server0\<lparr>config := config0\<lparr>ReadOnly := True\<rparr>\<rparr>))
   \<and> ''update_query'' \<notin> set (registeredTools (config0\<lparr>ReadOnly := True\<rparr>))"
proof -
  have a: "ReadOnly (config (server0\<lparr>config := config0\<lparr>ReadOnly := True\<rparr>\<rparr>))"
    by simp
  from read_only_rejects_mutating [OF a, of update_query env0
         "[''query'' \<mapsto> AString ''UPDATE t SET x=1 WHERE id=5'', ''force'' \<mapsto> ABool True]"
         main_utils] a
  show ?thesis by simp
qed

section \<open>The read path\<close>

text \<open>
  Claim C1 as stated: every \<open>read_query\<close> handler admits a statement whose trimmed,
  upper-cased text begins with \<open>SELECT\<close>, \<open>WITH\<close> or \<open>EXPLAIN\<close>. It fails for the
  handler of the sqlx server, whose test names \<open>SELECT\<close> and \<open>WITH\<close> only: a statement
  beginning with \<open>EXPLAIN\<close> is turned down and nothing is sent to the database.
\<close>

theorem read_query_explain_counterexample:
  "HasPrefix (ToUpper (unicodeUpper3 env3_0) (TrimSpace ''EXPLAIN SELECT 1'')) ''EXPLAIN''
   \<and> readQueryTool_handler env3_0 [''query'' \<mapsto> AString ''EXPLAIN SELECT 1''] globals0
       = (ToolResultText ''Error: Only SELECT queries are allowed'', globals0)"
proof -
  have q: "getStringParam [''query'' \<mapsto> AString ''EXPLAIN SELECT 1''] ''query'' ''''
             = ''EXPLAIN SELECT 1''"
    by (simp add: param_eval)
  have u: "ToUpper (unicodeUpper3 env3_0) (TrimSpace ''EXPLAIN SELECT 1'') = ''EXPLAIN SELECT 1''"
    by (simp add: string_eval)
  have h: "readQueryTool_handler env3_0 [''query'' \<mapsto> AString ''EXPLAIN SELECT 1''] globals0
       = (ToolResultText ''Error: Only SELECT queries are allowed'', globals0)"
    by (simp add: readQueryTool_handler_def Let_def q u HasPrefix_def)
  from u h show ?thesis
    by (simp add: HasPrefix_def)
qed

text \<open>
  Claim C1, amended. In the pooled server (\<open>handleReadQuery\<close> and
  \<open>Handlers.HandleReadQuery\<close>) a \<open>read_query\<close> statement is handed to the executor, as
  exactly one statement, if and only if its text, trimmed by \<open>strings.TrimSpace\<close> and
  upper-cased by \<open>strings.ToUpper\<close>, begins with \<open>SELECT\<close>, \<open>WITH\<close> or \<open>EXPLAIN\<close>;
  otherwise the request is answered with an error text and nothing is handed to the pool.
  In the sqlx server the \<open>read_query\<close> handler hands the statement to \<open>HandleQuery\<close> if
  and only if that text begins with \<open>SELECT\<close> or \<open>WITH\<close>; otherwise it answers with an
  error text and leaves the state as it was.
\<close>

theorem read_query_admission:
  "(if HasPrefix (ToUpper (unicodeUpper e) (TrimSpace (getStringParam request ''query'' '''')))
         ''SELECT''
       \<or> HasPrefix (ToUpper (unicodeUpper e) (TrimSpace (getStringParam request ''query'' '''')))
            ''WITH''
       \<or> HasPrefix (ToUpper (unicodeUpper e) (TrimSpace (getStringParam request ''query'' '''')))
            ''EXPLAIN''
    then (\<exists>stmt. issued (snd (handleReadQuery e request s)) = issued s @ [stmt])
       \<and> (\<exists>stmt. issued (snd (HandleReadQuery main_utils e request s)) = issued s @ [stmt])
    else rejected_with (if getStringParam request ''query'' '''' = ''''
                        then ''query parameter is required''
                        else ''only SELECT queries are allowed'')
           s (handleReadQuery e request s)
       \<and> rejected_with (if getStringParam request ''query'' '''' = ''''
                        then ''query parameter is required''
                        else ''only SELECT queries are allowed in read_query'')
           s (HandleReadQuery main_utils e request s))
   \<and> (if HasPrefix (ToUpper (unicodeUpper3 e3) (TrimSpace (getStringParam request ''query'' '''')))
           ''SELECT''
         \<or> HasPrefix (ToUpper (unicodeUpper3 e3) (TrimSpace (getStringParam request ''query'' '''')))
              ''WITH''
      then readQueryTool_handler e3 request g
             = (case HandleQuery e3
                       (if Contains (ToUpper (unicodeUpper3 e3)
                                       (TrimSpace (getStringParam request ''query'' '''')))
                             ''LIMIT''
                        then getStringParam request ''query'' ''''
                        else getStringParam request ''query'' '''' @ '' LIMIT ''
                             @ fmt_d (go_int (getNumberParam request ''limit'' 1000)))
                       StatementTypeSelect g of
                  (Inl (Error err), g1) \<Rightarrow> (ToolResultText (''Error: '' @ err), g1)
                | (Inl Panic, g1) \<Rightarrow> (Panicked, g1)
                | (Inr result, g1) \<Rightarrow> (ToolResultText result, g1))
      else readQueryTool_handler e3 request g
             = (ToolResultText ''Error: Only SELECT queries are allowed'', g))"
proof -
  let ?q = "getStringParam request ''query'' ''''"
  let ?u = "ToUpper (unicodeUpper e) (TrimSpace ?q)"
  let ?u3 = "ToUpper (unicodeUpper3 e3) (TrimSpace ?q)"
  have ro: "isReadOnlyQuery e ?q
              = (HasPrefix ?u ''SELECT'' \<or> HasPrefix ?u ''WITH'' \<or> HasPrefix ?u ''EXPLAIN'')"
    by (simp add: isReadOnlyQuery_def Let_def)
  have pooled:
    "if HasPrefix ?u ''SELECT'' \<or> HasPrefix ?u ''WITH'' \<or> HasPrefix ?u ''EXPLAIN''
     then (\<exists>stmt. issued (snd (handleReadQuery e request s)) = issued s @ [stmt])
        \<and> (\<exists>stmt. issued (snd (HandleReadQuery main_utils e request s)) = issued s @ [stmt])
     else rejected_with (if ?q = '''' then ''query parameter is required''
                         else ''only SELECT queries are allowed'')
            s (handleReadQuery e request s)
        \<and> rejected_with (if ?q = '''' then ''query parameter is required''
                         else ''only SELECT queries are allowed in read_query'')
            s (HandleReadQuery main_utils e request s)"
  proof (cases "isReadOnlyQuery e ?q")
    case True
    from handleReadQuery_admitted [OF True, of s] HandleReadQuery_admitted [OF True, of s]
    have "(\<exists>stmt. issued (snd (handleReadQuery e request s)) = issued s @ [stmt])
        \<and> (\<exists>stmt. issued (snd (HandleReadQuery main_utils e request s)) = issued s @ [stmt])"
      by blast
    with True ro show ?thesis by simp
  next
    case False
    from handleReadQuery_rejected [OF False, of s] HandleReadQuery_rejected [OF False, of s]
      False ro
    show ?thesis by simp
  qed
  have sqlx:
    "if HasPrefix ?u3 ''SELECT'' \<or> HasPrefix ?u3 ''WITH''
     then readQueryTool_handler e3 request g
            = (case HandleQuery e3
                      (if Contains ?u3 ''LIMIT'' then ?q
                       else ?q @ '' LIMIT ''
                            @ fmt_d (go_int (getNumberParam request ''limit'' 1000)))
                      StatementTypeSelect g of
                 (Inl (Error err), g1) \<Rightarrow> (ToolResultText (''Error: '' @ err), g1)
               | (Inl Panic, g1) \<Rightarrow> (Panicked, g1)
               | (Inr result, g1) \<Rightarrow> (ToolResultText result, g1))
     else readQueryTool_handler e3 request g
            = (ToolResultText ''Error: Only SELECT queries are allowed'', g)"
    by (simp add: readQueryTool_handler_def Let_def)
  from pooled sqlx show ?thesis by (rule conjI)
qed

theorem read_query_admission_witness:
  "(\<exists>stmt. issued (snd (handleReadQuery env0 [''query'' \<mapsto> AString ''  explain select 1''] server0))
            = issued server0 @ [stmt])
   \<and> (\<exists>stmt. issued (snd (handleReadQuery env0
                  [''query'' \<mapsto> AString ([CHR 0xC2, CHR 0xA0] @ ''SELECT 1'')] server0))
            = issued server0 @ [stmt])
   \<and> (\<exists>stmt. issued (snd (handleReadQuery env0
                  [''query'' \<mapsto> AString ([CHR 0xC5, CHR 0xBF] @ ''elect 1'')] server0))
            = issued server0 @ [stmt])
   \<and> rejected_with ''only SELECT queries are allowed'' server0
        (handleReadQuery env0 [''query'' \<mapsto> AString ''DROP TABLE t''] server0)
   \<and> readQueryTool_handler env3_0 [''query'' \<mapsto> AString ''DROP TABLE t''] globals0
       = (ToolResultText ''Error: Only SELECT queries are allowed'', globals0)"
proof -
  have a: "HasPrefix (ToUpper (unicodeUpper env0) (TrimSpace (getStringParam
             [''query'' \<mapsto> AString ''  explain select 1''] ''query'' ''''))) ''EXPLAIN''"
    by (simp add: param_eval string_eval)
  have a2: "HasPrefix (ToUpper (unicodeUpper env0) (TrimSpace (getStringParam
             [''query'' \<mapsto> AString ([CHR 0xC2, CHR 0xA0] @ ''SELECT 1'')] ''query'' '''')))
             ''SELECT''"
    by (simp add: param_eval string_eval)
  have a3: "HasPrefix (ToUpper (unicodeUpper env0) (TrimSpace (getStringParam
             [''query'' \<mapsto> AString ([CHR 0xC5, CHR 0xBF] @ ''elect 1'')] ''query'' '''')))
             ''SELECT''"
    by (simp add: param_eval string_eval sample_eval)
  have b: "\<not> HasPrefix (ToUpper (unicodeUpper env0) (TrimSpace (getStringParam
             [''query'' \<mapsto> AString ''DROP TABLE t''] ''query'' ''''))) ''SELECT''"
          "\<not> HasPrefix (ToUpper (unicodeUpper env0) (TrimSpace (getStringParam
             [''query'' \<mapsto> AString ''DROP TABLE t''] ''query'' ''''))) ''WITH''"
          "\<not> HasPrefix (ToUpper (unicodeUpper env0) (TrimSpace (getStringParam
             [''query'' \<mapsto> AString ''DROP TABLE t''] ''query'' ''''))) ''EXPLAIN''"
          "\<not> HasPrefix (ToUpper (unicodeUpper3 env3_0) (TrimSpace (getStringParam
             [''query'' \<mapsto> AString ''DROP TABLE t''] ''query'' ''''))) ''SELECT''"
          "\<not> HasPrefix (ToUpper (unicodeUpper3 env3_0) (TrimSpace (getStringParam
             [''query'' \<mapsto> AString ''DROP TABLE t''] ''query'' ''''))) ''WITH''"
          "getStringParam [''query'' \<mapsto> AString ''DROP TABLE t''] ''query'' '''' \<noteq> ''''"
    by (simp_all add: param_eval string_eval)
  from read_query_admission
         [where request = "[''query'' \<mapsto> AString ''  explain select 1'']" and e = env0
            and s = server0 and ?e3.0 = env3_0 and g = globals0]
       a
  have 1: "\<exists>stmt. issued (snd (handleReadQuery env0
             [''query'' \<mapsto> AString ''  explain select 1''] server0)) = issued server0 @ [stmt]"
    by simp
  from read_query_admission
         [where request = "[''query'' \<mapsto> AString ([CHR 0xC2, CHR 0xA0] @ ''SELECT 1'')]"
            and e = env0 and s = server0 and ?e3.0 = env3_0 and g = globals0]
       a2
  have 2: "\<exists>stmt. issued (snd (handleReadQuery env0
             [''query'' \<mapsto> AString ([CHR 0xC2, CHR 0xA0] @ ''SELECT 1'')] server0))
             = issued server0 @ [stmt]"
    by simp
  from read_query_admission
         [where request = "[''query'' \<mapsto> AString ([CHR 0xC5, CHR 0xBF] @ ''elect 1'')]"
            and e = env0 and s = server0 and ?e3.0 = env3_0 and g = globals0]
       a3
  have 3: "\<exists>stmt. issued (snd (handleReadQuery env0
             [''query'' \<mapsto> AString ([CHR 0xC5, CHR 0xBF] @ ''elect 1'')] server0))
             = issued server0 @ [stmt]"
    by simp
  from read_query_admission
         [where request = "[''query'' \<mapsto> AString ''DROP TABLE t'']" and e = env0
            and s = server0 and ?e3.0 = env3_0 and g = globals0]
       b
  have 4: "rejected_with ''only SELECT queries are allowed'' server0
             (handleReadQuery env0 [''query'' \<mapsto> AString ''DROP TABLE t''] server0)
         \<and> readQueryTool_handler env3_0 [''query'' \<mapsto> AString ''DROP TABLE t''] globals0
             = (ToolResultText ''Error: Only SELECT queries are allowed'', globals0)"
    by simp
  from 1 2 3 4 show ?thesis by blast
qed

text \<open>
  Claim C6. For an admitted \<open>read_query\<close> statement: when its text, upper-cased by
  \<open>strings.ToUpper\<close>, does not contain \<open>LIMIT\<close>, the statement handed to the executor is
  the text followed by \<open>LIMIT n\<close>, where \<open>n\<close> is the integer part of the \<open>limit\<close>
  argument, 1000 when no limit is given; when the upper-cased text contains \<open>LIMIT\<close>
  anywhere, the statement is handed over unchanged.
\<close>

theorem read_query_limit_injection:
  assumes "isReadOnlyQuery e (getStringParam request ''query'' '''')"
  shows "(Contains (ToUpper (unicodeUpper e) (getStringParam request ''query'' '''')) ''LIMIT''
            \<longrightarrow>
            issued (snd (handleReadQuery e request s))
              = issued s @ [getStringParam request ''query'' '''']
          \<and> issued (snd (HandleReadQuery main_utils e request s))
              = issued s @ [getStringParam request ''query'' ''''])
       \<and> (\<not> Contains (ToUpper (unicodeUpper e) (getStringParam request ''query'' '''')) ''LIMIT''
            \<longrightarrow>
            issued (snd (handleReadQuery e request s))
              = issued s @ [getStringParam request ''query'' '''' @ '' LIMIT ''
                            @ fmt_d (go_int (getNumberParam request ''limit'' 1000))]
          \<and> issued (snd (HandleReadQuery main_utils e request s))
              = issued s @ [getStringParam request ''query'' '''' @ '' LIMIT ''
                            @ fmt_d (go_int (getNumberParam request ''limit'' 1000))])
       \<and> (request ''limit'' = None \<longrightarrow>
            fmt_d (go_int (getNumberParam request ''limit'' 1000)) = ''1000'')
       \<and> (\<forall>k. request ''limit'' = Some (ANumber (of_int k)) \<and> - (2 ^ 63) \<le> k \<and> k < 2 ^ 63 \<longrightarrow>
            fmt_d (go_int (getNumberParam request ''limit'' 1000)) = fmt_d k)"
proof -
  note adm = handleReadQuery_admitted [OF assms, of s]
             HandleReadQuery_admitted [OF assms, of s]
  have 1: "Contains (ToUpper (unicodeUpper e) (getStringParam request ''query'' '''')) ''LIMIT''
            \<longrightarrow>
            issued (snd (handleReadQuery e request s))
              = issued s @ [getStringParam request ''query'' '''']
          \<and> issued (snd (HandleReadQuery main_utils e request s))
              = issued s @ [getStringParam request ''query'' '''']"
    using adm by simp
  have 2: "\<not> Contains (ToUpper (unicodeUpper e) (getStringParam request ''query'' '''')) ''LIMIT''
            \<longrightarrow>
            issued (snd (handleReadQuery e request s))
              = issued s @ [getStringParam request ''query'' '''' @ '' LIMIT ''
                            @ fmt_d (go_int (getNumberParam request ''limit'' 1000))]
          \<and> issued (snd (HandleReadQuery main_utils e request s))
              = issued s @ [getStringParam request ''query'' '''' @ '' LIMIT ''
                            @ fmt_d (go_int (getNumberParam request ''limit'' 1000))]"
    using adm by simp
  have 3: "request ''limit'' = None \<longrightarrow>
            fmt_d (go_int (getNumberParam request ''limit'' 1000)) = ''1000''"
    by (simp add: getNumberParam_def go_int_def fmt_d_def digits_small digits_big)
  have 4: "\<forall>k. request ''limit'' = Some (ANumber (of_int k)) \<and> - (2 ^ 63) \<le> k \<and> k < 2 ^ 63 \<longrightarrow>
            fmt_d (go_int (getNumberParam request ''limit'' 1000)) = fmt_d k"
    by (simp add: getNumberParam_def go_int_def)
  from 1 2 3 4 show ?thesis by blast
qed

theorem read_query_limit_injection_witness:
  "isReadOnlyQuery env0 ''SELECT * FROM t''
   \<and> issued (snd (handleReadQuery env0 [''query'' \<mapsto> AString ''SELECT * FROM t''] server0))
       = [''SELECT * FROM t LIMIT 1000'']
   \<and> issued (snd (handleReadQuery env0
        [''query'' \<mapsto> AString ''SELECT * FROM t'', ''limit'' \<mapsto> ANumber 25] server0))
       = [''SELECT * FROM t LIMIT 25'']
   \<and> issued (snd (HandleReadQuery main_utils env0
        [''query'' \<mapsto> AString ''select * from t limit 5''] server0))
       = [''select * from t limit 5'']
   \<and> issued (snd (handleReadQuery env0
        [''query'' \<mapsto> AString (''select * from t l'' @ [CHR 0xC4, CHR 0xB1] @ ''m''
                                @ [CHR 0xC4, CHR 0xB1] @ ''t 5'')] server0))
       = [''select * from t l'' @ [CHR 0xC4, CHR 0xB1] @ ''m'' @ [CHR 0xC4, CHR 0xB1] @ ''t 5'']"
proof -
  let ?d = "''select * from t l'' @ [CHR 0xC4, CHR 0xB1] @ ''m'' @ [CHR 0xC4, CHR 0xB1] @ ''t 5''"
  have a: "isReadOnlyQuery env0 ''SELECT * FROM t''"
          "isReadOnlyQuery env0 ''select * from t limit 5''"
          "isReadOnlyQuery env0 ?d"
    by (simp_all add: isReadOnlyQuery_def string_eval sample_eval)
  have q: "getStringParam [''query'' \<mapsto> AString ''SELECT * FROM t''] ''query'' ''''
             = ''SELECT * FROM t''"
          "getStringParam [''query'' \<mapsto> AString ''SELECT * FROM t'', ''limit'' \<mapsto> ANumber 25]
             ''query'' '''' = ''SELECT * FROM t''"
          "getStringParam [''query'' \<mapsto> AString ''select * from t limit 5''] ''query'' ''''
             = ''select * from t limit 5''"
          "getStringParam [''query'' \<mapsto> AString ?d] ''query'' '''' = ?d"
    by (simp_all add: param_eval)
  have c: "\<not> Contains (ToUpper (unicodeUpper env0) ''SELECT * FROM t'') ''LIMIT''"
          "Contains (ToUpper (unicodeUpper env0) ''select * from t limit 5'') ''LIMIT''"
          "Contains (ToUpper (unicodeUpper env0) ?d) ''LIMIT''"
    by (simp_all add: string_eval sample_eval)
  have n: "[''query'' \<mapsto> AString ''SELECT * FROM t''] ''limit'' = None"
          "[''query'' \<mapsto> AString ''SELECT * FROM t'', ''limit'' \<mapsto> ANumber 25] ''limit''
             = Some (ANumber (of_int 25))"
          "fmt_d 25 = ''25''"
    by (simp_all add: fmt_d_def digits_small digits_big)
  have i: "issued server0 = []"
    by (simp add: sample_eval)
  have 1: "issued (snd (handleReadQuery env0 [''query'' \<mapsto> AString ''SELECT * FROM t''] server0))
       = [''SELECT * FROM t LIMIT 1000'']"
    using read_query_limit_injection
            [where request = "[''query'' \<mapsto> AString ''SELECT * FROM t'']" and e = env0
               and s = server0] a q c n(1) i
    by simp
  have 2: "issued (snd (handleReadQuery env0
        [''query'' \<mapsto> AString ''SELECT * FROM t'', ''limit'' \<mapsto> ANumber 25] server0))
       = [''SELECT * FROM t LIMIT 25'']"
    using read_query_limit_injection
            [where request = "[''query'' \<mapsto> AString ''SELECT * FROM t'', ''limit'' \<mapsto> ANumber 25]"
               and e = env0 and s = server0] a q c n(2,3) i
    by simp
  have 3: "issued (snd (HandleReadQuery main_utils env0
        [''query'' \<mapsto> AString ''select * from t limit 5''] server0))
       = [''select * from t limit 5'']"
    using read_query_limit_injection
            [where request = "[''query'' \<mapsto> AString ''select * from t limit 5'']" and e = env0
               and s = server0] a q c i
    by simp
  have 4: "issued (snd (handleReadQuery env0 [''query'' \<mapsto> AString ?d] server0)) = [?d]"
    using read_query_limit_injection
            [where request = "[''query'' \<mapsto> AString ?d]" and e = env0 and s = server0]
          a(3) q(4) c(3) i
    by simp
  from a(1) 1 2 3 4 show ?thesis by simp
qed

section \<open>The plan-validation gate\<close>

text \<open>
  Claim C5. With the explain check enabled and a non-empty expected statement kind, once
  the database handle is there, the first statement \<open>DoQuery\<close> and \<open>HandleExec\<close> send is
  \<open>EXPLAIN\<close> of the statement. If that \<open>EXPLAIN\<close> fails, its error is what the caller gets
  and the \<open>EXPLAIN\<close> is the only statement sent: the statement itself is never sent.
\<close>

theorem explain_gate_blocks_statement:
  assumes "WithExplainCheck g" and "expect \<noteq> ''''" and "GetDB e g = (Inr (), g1)"
  shows "(\<exists>rest. sent (snd (DoQuery e query expect g))
                   = sent g @ (''EXPLAIN '' @ query) # rest)
       \<and> (\<exists>rest. sent (snd (HandleExec e query expect g))
                   = sent g @ (''EXPLAIN '' @ query) # rest)
       \<and> (queryx e (''EXPLAIN '' @ query) = QueryxError err \<longrightarrow>
            DoQuery e query expect g
              = (Inl (Error err), g1\<lparr>sent := sent g @ [''EXPLAIN '' @ query]\<rparr>)
          \<and> HandleExec e query expect g
              = (Inl (Error err), g1\<lparr>sent := sent g @ [''EXPLAIN '' @ query]\<rparr>)
          \<and> HandleQuery e query expect g
              = (Inl (Error err), g1\<lparr>sent := sent g @ [''EXPLAIN '' @ query]\<rparr>)
          \<and> query \<notin> set (drop (length (sent g)) (sent (snd (DoQuery e query expect g))))
          \<and> query \<notin> set (drop (length (sent g)) (sent (snd (HandleExec e query expect g)))))"
proof -
  note 1 = DoQuery_sent_explain [OF assms(3) assms(1) assms(2), of query]
  note 2 = HandleExec_sent_explain [OF assms(3) assms(1) assms(2), of query]
  have 3: "queryx e (''EXPLAIN '' @ query) = QueryxError err \<longrightarrow>
            DoQuery e query expect g
              = (Inl (Error err), g1\<lparr>sent := sent g @ [''EXPLAIN '' @ query]\<rparr>)
          \<and> HandleExec e query expect g
              = (Inl (Error err), g1\<lparr>sent := sent g @ [''EXPLAIN '' @ query]\<rparr>)
          \<and> HandleQuery e query expect g
              = (Inl (Error err), g1\<lparr>sent := sent g @ [''EXPLAIN '' @ query]\<rparr>)
          \<and> query \<notin> set (drop (length (sent g)) (sent (snd (DoQuery e query expect g))))
          \<and> query \<notin> set (drop (length (sent g)) (sent (snd (HandleExec e query expect g))))"
  proof
    assume f: "queryx e (''EXPLAIN '' @ query) = QueryxError err"
    note d = DoQuery_explain_fails [OF assms(3) assms(1) assms(2) f]
    note x = HandleExec_explain_fails [OF assms(3) assms(1) assms(2) f]
    have h: "HandleQuery e query expect g
              = (Inl (Error err), g1\<lparr>sent := sent g @ [''EXPLAIN '' @ query]\<rparr>)"
      by (simp add: HandleQuery_def d)
    have ne: "query \<noteq> ''EXPLAIN '' @ query"
      by (metis append_self_conv2 list.distinct(1))
    from d x h ne show "DoQuery e query expect g
              = (Inl (Error err), g1\<lparr>sent := sent g @ [''EXPLAIN '' @ query]\<rparr>)
          \<and> HandleExec e query expect g
              = (Inl (Error err), g1\<lparr>sent := sent g @ [''EXPLAIN '' @ query]\<rparr>)
          \<and> HandleQuery e query expect g
              = (Inl (Error err), g1\<lparr>sent := sent g @ [''EXPLAIN '' @ query]\<rparr>)
          \<and> query \<notin> set (drop (length (sent g)) (sent (snd (DoQuery e query expect g))))
          \<and> query \<notin> set (drop (length (sent g)) (sent (snd (HandleExec e query expect g))))"
      by simp
  qed
  from 1 2 3 show ?thesis by blast
qed

theorem explain_gate_blocks_statement_witness:
  "WithExplainCheck globals0 \<and> StatementTypeSelect \<noteq> ''''
   \<and> GetDB env3_0 globals0 = (Inr (), globals0\<lparr>DB := True\<rparr>)
   \<and> queryx env3_0 (''EXPLAIN '' @ ''SELEC 1'') = QueryxError ''syntax error''
   \<and> DoQuery env3_0 ''SELEC 1'' StatementTypeSelect globals0
       = (Inl (Error ''syntax error''), globals0\<lparr>DB := True, sent := [''EXPLAIN SELEC 1'']\<rparr>)
   \<and> HandleExec env3_0 ''SELEC 1'' StatementTypeSelect globals0
       = (Inl (Error ''syntax error''), globals0\<lparr>DB := True, sent := [''EXPLAIN SELEC 1'']\<rparr>)"
proof -
  have a: "WithExplainCheck globals0" "StatementTypeSelect \<noteq> ''''"
    by (simp_all add: sample_eval StatementTypeSelect_def)
  have b: "GetDB env3_0 globals0 = (Inr (), globals0\<lparr>DB := True\<rparr>)"
    by (simp add: GetDB_def sample_eval)
  have c: "queryx env3_0 (''EXPLAIN '' @ ''SELEC 1'') = QueryxError ''syntax error''"
    by (simp add: sample_eval)
  have d: "sent globals0 = []"
    by (simp add: sample_eval)
  from explain_gate_blocks_statement [OF a b, of "''SELEC 1''" "''syntax error''"] a b c d
  show ?thesis by simp
qed

section \<open>The shape of a query result\<close>

text \<open>
  Claim C9 as stated: in every \<open>QueryResult\<close> that query execution produces, the column
  sequence lists the keys of each row. It fails where the reply names two columns alike, as
  for \<open>SELECT 1 AS id, 2 AS id\<close>: the result has two columns and each row one key, which
  holds the value of the last of them.
\<close>

theorem duplicate_columns_counterexample:
  "full_rows (poolQuery env_dup ''SELECT 1 AS id, 2 AS id'' [])
   \<and> executeQuery env_dup ''SELECT 1 AS id, 2 AS id'' server0
       = (Inr \<lparr>Rows = [mkRow [''id'', ''id''] [VInt 1, VInt 2]],
               Columns = [''id'', ''id''], Count = 1, Timing = ''1000ns''\<rparr>,
          countQuery 1100 (server0\<lparr>issued := [''SELECT 1 AS id, 2 AS id'']\<rparr>))
   \<and> dom (mkRow [''id'', ''id''] [VInt 1, VInt 2]) = {''id''}
   \<and> mkRow [''id'', ''id''] [VInt 1, VInt 2] ''id'' = Some (VInt 2)
   \<and> \<not> result_invariant
          \<lparr>Rows = [mkRow [''id'', ''id''] [VInt 1, VInt 2]],
           Columns = [''id'', ''id''], Count = 1, Timing = ''1000ns''\<rparr>"
proof -
  have a: "full_rows (poolQuery env_dup ''SELECT 1 AS id, 2 AS id'' [])"
    by (simp add: env_dup_def sample_eval)
  have b: "executeQuery env_dup ''SELECT 1 AS id, 2 AS id'' server0
       = (Inr \<lparr>Rows = [mkRow [''id'', ''id''] [VInt 1, VInt 2]],
               Columns = [''id'', ''id''], Count = 1, Timing = ''1000ns''\<rparr>,
          countQuery 1100 (server0\<lparr>issued := [''SELECT 1 AS id, 2 AS id'']\<rparr>))"
    by (simp add: executeQuery_def env_dup_def sample_eval fmt_d_def digits_small digits_big)
  have c: "dom (mkRow [''id'', ''id''] [VInt 1, VInt 2]) = {''id''}"
    by (simp add: mkRow_def)
  have d: "mkRow [''id'', ''id''] [VInt 1, VInt 2] ''id'' = Some (VInt 2)"
    by (simp add: mkRow_def)
  have e: "\<not> result_invariant
          \<lparr>Rows = [mkRow [''id'', ''id''] [VInt 1, VInt 2]],
           Columns = [''id'', ''id''], Count = 1, Timing = ''1000ns''\<rparr>"
    by (simp add: result_invariant_def c)
  from a b c d e show ?thesis by blast
qed

text \<open>
  Claim C9, amended. Every \<open>QueryResult\<close> that \<open>executeQuery\<close> or
  \<open>executeQueryWithParams\<close> returns, from a reply in which the driver gives one value per
  field description, has a \<open>Count\<close> equal to the number of rows, and the key set of each
  row is the set of the column names taken from the field descriptions. When these names
  are pairwise distinct, the column sequence lists the keys of each row, one entry for each
  key. The same holds of the rows and columns that \<open>DoQuery\<close> returns.
\<close>

theorem query_result_invariant:
  "(full_rows (poolQuery e query []) \<and> executeQuery e query s = (Inr r, s')
      \<longrightarrow> (\<forall>row \<in> set (Rows r). dom row = set (Columns r))
          \<and> Count r = int (length (Rows r))
          \<and> (distinct (Columns r) \<longrightarrow> result_invariant r))
   \<and> (full_rows (poolQuery e query args) \<and> executeQueryWithParams e query args s = (Inr r2, s2)
      \<longrightarrow> (\<forall>row \<in> set (Rows r2). dom row = set (Columns r2))
          \<and> Count r2 = int (length (Rows r2))
          \<and> (distinct (Columns r2) \<longrightarrow> result_invariant r2))
   \<and> (DoQuery e3 query expect g = (Inr (result, cols), g')
      \<longrightarrow> (\<forall>row \<in> set result.
             dom row = set cols \<and> (distinct cols \<longrightarrow> card (dom row) = length cols)))"
proof -
  have 1: "full_rows (poolQuery e query []) \<and> executeQuery e query s = (Inr r, s')
      \<longrightarrow> (\<forall>row \<in> set (Rows r). dom row = set (Columns r))
          \<and> Count r = int (length (Rows r))
          \<and> (distinct (Columns r) \<longrightarrow> result_invariant r)"
    using executeQueryWithParams_keys [of e query "[]" s r s']
          executeQueryWithParams_invariant [of e query "[]" s r s']
    by (simp add: executeQuery_eq)
  have 2: "full_rows (poolQuery e query args) \<and> executeQueryWithParams e query args s = (Inr r2, s2)
      \<longrightarrow> (\<forall>row \<in> set (Rows r2). dom row = set (Columns r2))
          \<and> Count r2 = int (length (Rows r2))
          \<and> (distinct (Columns r2) \<longrightarrow> result_invariant r2)"
    using executeQueryWithParams_keys [of e query args s r2 s2]
          executeQueryWithParams_invariant [of e query args s r2 s2]
    by simp
  have 3: "DoQuery e3 query expect g = (Inr (result, cols), g')
      \<longrightarrow> (\<forall>row \<in> set result.
             dom row = set cols \<and> (distinct cols \<longrightarrow> card (dom row) = length cols))"
    using DoQuery_keys [of e3 query expect g result cols g']
    by (simp add: distinct_card)
  from 1 2 3 show ?thesis by blast
qed

theorem query_result_invariant_witness:
  "full_rows (poolQuery env0 ''SELECT id, name FROM t'' [])
   \<and> executeQuery env0 ''SELECT id, name FROM t'' server0
       = (Inr \<lparr>Rows = [mkRow [''id'', ''name''] [VInt 1, VText ''a'']],
               Columns = [''id'', ''name''], Count = 1, Timing = ''1000ns''\<rparr>,
          countQuery 1100 (server0\<lparr>issued := [''SELECT id, name FROM t'']\<rparr>))
   \<and> distinct [''id'', ''name'']
   \<and> result_invariant
        \<lparr>Rows = [mkRow [''id'', ''name''] [VInt 1, VText ''a'']],
         Columns = [''id'', ''name''], Count = 1, Timing = ''1000ns''\<rparr>
   \<and> DoQuery env3_0 ''SELECT id FROM t'' '''' globals0
       = (Inr ([resultRow [''id''] [VInt 1]], [''id'']),
          globals0\<lparr>DB := True, sent := [''SELECT id FROM t'']\<rparr>)
   \<and> dom (resultRow [''id''] [VInt 1]) = {''id''}
   \<and> card (dom (resultRow [''id''] [VInt 1])) = 1"
proof -
  have a: "full_rows (poolQuery env0 ''SELECT id, name FROM t'' [])"
    by (simp add: sample_eval)
  have b: "executeQuery env0 ''SELECT id, name FROM t'' server0
       = (Inr \<lparr>Rows = [mkRow [''id'', ''name''] [VInt 1, VText ''a'']],
               Columns = [''id'', ''name''], Count = 1, Timing = ''1000ns''\<rparr>,
          countQuery 1100 (server0\<lparr>issued := [''SELECT id, name FROM t'']\<rparr>))"
    by (simp add: executeQuery_def sample_eval fmt_d_def digits_small digits_big)
  have c: "DoQuery env3_0 ''SELECT id FROM t'' '''' globals0
       = (Inr ([resultRow [''id''] [VInt 1]], [''id'']),
          globals0\<lparr>DB := True, sent := [''SELECT id FROM t'']\<rparr>)"
    by (simp add: DoQuery_def GetDB_def sample_eval)
  have d: "distinct [''id'', ''name'']"
    by simp
  from query_result_invariant
         [where e = env0 and query = "''SELECT id, name FROM t''" and s = server0
            and r = "\<lparr>Rows = [mkRow [''id'', ''name''] [VInt 1, VText ''a'']],
                      Columns = [''id'', ''name''], Count = 1, Timing = ''1000ns''\<rparr>"
            and s' = "countQuery 1100 (server0\<lparr>issued := [''SELECT id, name FROM t'']\<rparr>)"]
       a b
  have 1: "result_invariant
        \<lparr>Rows = [mkRow [''id'', ''name''] [VInt 1, VText ''a'']],
         Columns = [''id'', ''name''], Count = 1, Timing = ''1000ns''\<rparr>"
    by simp
  from query_result_invariant
         [where ?e3.0 = env3_0 and query = "''SELECT id FROM t''" and expect = "''''"
            and g = globals0 and result = "[resultRow [''id''] [VInt 1]]" and cols = "[''id'']"
            and g' = "globals0\<lparr>DB := True, sent := [''SELECT id FROM t'']\<rparr>"]
       c
  have 2: "dom (resultRow [''id''] [VInt 1]) = {''id''}
         \<and> card (dom (resultRow [''id''] [VInt 1])) = 1"
    by simp
  from a b c d 1 2 show ?thesis by blast
qed

section \<open>The statistics snapshot\<close>

text \<open>
  The package-level \<open>handleGetStats\<close> computes the average without a guard: on a fresh
  server it divides zero by zero, the snapshot cannot be marshalled, and the reply is the
  empty text.
\<close>

lemma handleGetStats_fresh_server:
  "fdiv (fdiv (float64_of_int64 (TotalResponseTime (metrics server0)))
              (float64_of_int64 (QueriesExecuted (metrics server0)))) (Fin 1000000) = NaN
   \<and> fst (handleGetStats env0 Map.empty server0) = ToolResultText []"
  by (simp add: handleGetStats_def marshalStats_def seconds_def float64_of_int64_def
                sample_eval)

text \<open>
  Claim C7 as stated: with \<open>QueriesExecuted\<close> zero the snapshot reports an average of zero.
  It fails: on a fresh server \<open>Handlers.HandleGetStats\<close> leaves the entry
  \<open>avg_response_time_ms\<close> out of the snapshot it returns.
\<close>

theorem stats_average_zero_counterexample:
  "QueriesExecuted (metrics server0) = 0
   \<and> map_of (HandleGetStats_stats env0 server0) ''avg_response_time_ms'' = None
   \<and> fst (HandleGetStats main_utils env0 Map.empty server0)
       = ToolResultStats (HandleGetStats_stats env0 server0)"
  by (simp add: HandleGetStats_stats_def HandleGetStats_def marshalStats_def
                seconds_def sample_eval)

text \<open>
  Claim C7, amended. The snapshot of \<open>Handlers.HandleGetStats\<close> holds the entry
  \<open>avg_response_time_ms\<close>, equal to the cumulative response time in nanoseconds divided by
  \<open>QueriesExecuted\<close> and by 1000000, whenever \<open>QueriesExecuted\<close> is greater than zero;
  when \<open>QueriesExecuted\<close> is zero (or less) the snapshot holds no such entry. In both cases
  the snapshot is marshalled and returned.
\<close>

theorem stats_average_guarded:
  "(if 0 <s QueriesExecuted (metrics s)
    then map_of (HandleGetStats_stats e s) ''avg_response_time_ms''
           = Some (JFloat (Fin (real_of_int (sint (TotalResponseTime (metrics s)))
                                / real_of_int (sint (QueriesExecuted (metrics s)))
                                / 1000000)))
    else map_of (HandleGetStats_stats e s) ''avg_response_time_ms'' = None)
   \<and> fst (HandleGetStats h e request s) = ToolResultStats (HandleGetStats_stats e s)"
proof -
  have nz: "(signed (QueriesExecuted (metrics s)) :: real) \<noteq> 0"
    if "0 <s QueriesExecuted (metrics s)"
  proof -
    from that have "sint (QueriesExecuted (metrics s)) \<noteq> 0"
      by (simp add: word_sless_alt)
    moreover have "(signed (QueriesExecuted (metrics s)) :: real)
                     = real_of_int (sint (QueriesExecuted (metrics s)))"
      by (rule of_int_sint [symmetric])
    ultimately show ?thesis
      by (metis of_int_eq_0_iff)
  qed
  have 1: "if 0 <s QueriesExecuted (metrics s)
    then map_of (HandleGetStats_stats e s) ''avg_response_time_ms''
           = Some (JFloat (Fin (real_of_int (sint (TotalResponseTime (metrics s)))
                                / real_of_int (sint (QueriesExecuted (metrics s)))
                                / 1000000)))
    else map_of (HandleGetStats_stats e s) ''avg_response_time_ms'' = None"
    using nz by (simp add: HandleGetStats_stats_def float64_of_int64_def)
  have 2: "fst (HandleGetStats h e request s) = ToolResultStats (HandleGetStats_stats e s)"
    using nz
    by (simp add: HandleGetStats_def HandleGetStats_stats_def marshalStats_def seconds_def
                  float64_of_int64_def)
  from 1 2 show ?thesis by (rule conjI)
qed

theorem stats_average_guarded_witness:
  "0 <s QueriesExecuted (metrics (countQuery 3000000 (countQuery 1000000 server0)))
   \<and> map_of (HandleGetStats_stats env0 (countQuery 3000000 (countQuery 1000000 server0)))
        ''avg_response_time_ms'' = Some (JFloat (Fin 2))
   \<and> \<not> 0 <s QueriesExecuted (metrics server0)
   \<and> map_of (HandleGetStats_stats env0 server0) ''avg_response_time_ms'' = None"
proof -
  have a: "QueriesExecuted (metrics (countQuery 3000000 (countQuery 1000000 server0))) = 2"
          "TotalResponseTime (metrics (countQuery 3000000 (countQuery 1000000 server0))) = 4000000"
          "QueriesExecuted (metrics server0) = 0"
    by (simp_all add: countQuery_def sample_eval)
  have b: "0 <s (2 :: 64 word)" "\<not> 0 <s (0 :: 64 word)"
          "sint (2 :: 64 word) = 2" "sint (4000000 :: 64 word) = 4000000"
    by (simp_all add: word_sless_alt)
  from stats_average_guarded [of "countQuery 3000000 (countQuery 1000000 server0)" env0]
       stats_average_guarded [of server0 env0] a b
  show ?thesis by simp
qed
section \<open>Formatting an empty result\<close>

text \<open>
  Claim C8 as stated: on an empty result set both the text table and the CSV encoding give
  a "no results" line with the elapsed time, never a bare header row. It fails for the CSV
  encoding: \<open>MapToCSV\<close> writes the header row and nothing else.
\<close>

theorem csv_empty_counterexample:
  "MapToCSV [] [''id'', ''name''] = Inr (''id,name'' @ [CHR 0x0A])"
  by (simp add: MapToCSV_def csvWrite_def csvField_def fieldNeedsQuotes_def joinWith_def
                leadingSpace_def spaceRunes_def)

text \<open>
  Claim C8, amended. On a result without rows \<open>formatResult\<close> returns the line
  \<open>No results found.\<close> followed by the line \<open>Execution time:\<close> with the timing of the
  result, and no table; for a result that \<open>executeQuery\<close> built from a reply without
  records, that timing is the text of the time the query took. \<open>MapToCSV\<close> returns the
  header row alone, and so does \<open>HandleQuery\<close> for a reply without records.
\<close>

theorem empty_result_rendering:
  "(Rows r = [] \<longrightarrow>
      formatResult r = ''No results found.'' @ [CHR 0x0A] @ ''Execution time: '' @ Timing r)
   \<and> (poolQuery e query [] = QueryRows columnNames [] \<longrightarrow>
        (\<exists>r' s'. executeQuery e query s = (Inr r', s')
           \<and> formatResult r' = ''No results found.'' @ [CHR 0x0A] @ ''Execution time: ''
                                 @ durationString e (sinceStartTime e)))
   \<and> MapToCSV [] headers = Inr (csvWrite headers)
   \<and> (DB g \<and> \<not> WithExplainCheck g \<and> queryx e3 query = QueryxRows (Inr headers) [] \<longrightarrow>
        fst (HandleQuery e3 query expect g) = Inr (csvWrite headers))"
proof -
  have 1: "Rows r = [] \<longrightarrow>
      formatResult r = ''No results found.'' @ [CHR 0x0A] @ ''Execution time: '' @ Timing r"
    by (simp add: formatResult_def)
  have 2: "poolQuery e query [] = QueryRows columnNames [] \<longrightarrow>
        (\<exists>r' s'. executeQuery e query s = (Inr r', s')
           \<and> formatResult r' = ''No results found.'' @ [CHR 0x0A] @ ''Execution time: ''
                                 @ durationString e (sinceStartTime e))"
    by (simp add: executeQuery_def formatResult_def)
  have 3: "MapToCSV [] headers = Inr (csvWrite headers)"
    by (simp add: MapToCSV_def)
  have 4: "DB g \<and> \<not> WithExplainCheck g \<and> queryx e3 query = QueryxRows (Inr headers) [] \<longrightarrow>
        fst (HandleQuery e3 query expect g) = Inr (csvWrite headers)"
    by (simp add: HandleQuery_def DoQuery_def GetDB_def MapToCSV_def)
  from 1 2 3 4 show ?thesis by blast
qed

theorem empty_result_rendering_witness:
  "Rows \<lparr>Rows = [], Columns = [''id'', ''name''], Count = 0, Timing = ''1.5ms''\<rparr> = []
   \<and> formatResult \<lparr>Rows = [], Columns = [''id'', ''name''], Count = 0, Timing = ''1.5ms''\<rparr>
       = ''No results found.'' @ [CHR 0x0A] @ ''Execution time: 1.5ms''
   \<and> poolQuery (env0\<lparr>poolQuery := \<lambda>q args. QueryRows [''id''] []\<rparr>) ''SELECT id FROM t'' []
       = QueryRows [''id''] []
   \<and> (\<exists>r' s'. executeQuery (env0\<lparr>poolQuery := \<lambda>q args. QueryRows [''id''] []\<rparr>)
                  ''SELECT id FROM t'' server0 = (Inr r', s')
         \<and> formatResult r' = ''No results found.'' @ [CHR 0x0A] @ ''Execution time: 1000ns'')
   \<and> DB (globals0\<lparr>DB := True, WithExplainCheck := False\<rparr>)
   \<and> \<not> WithExplainCheck (globals0\<lparr>DB := True, WithExplainCheck := False\<rparr>)
   \<and> queryx (env3_0\<lparr>queryx := \<lambda>q. QueryxRows (Inr [''id'', ''name'']) []\<rparr>) ''SELECT id FROM t''
       = QueryxRows (Inr [''id'', ''name'']) []
   \<and> fst (HandleQuery (env3_0\<lparr>queryx := \<lambda>q. QueryxRows (Inr [''id'', ''name'']) []\<rparr>)
             ''SELECT id FROM t'' '''' (globals0\<lparr>DB := True, WithExplainCheck := False\<rparr>))
       = Inr (''id,name'' @ [CHR 0x0A])"
proof -
  have c: "csvWrite [''id'', ''name''] = ''id,name'' @ [CHR 0x0A]"
    by (simp add: csvWrite_def csvField_def fieldNeedsQuotes_def joinWith_def leadingSpace_def spaceRunes_def)
  have d: "durationString (env0\<lparr>poolQuery := \<lambda>q args. QueryRows [''id''] []\<rparr>)
             (sinceStartTime (env0\<lparr>poolQuery := \<lambda>q args. QueryRows [''id''] []\<rparr>)) = ''1000ns''"
    by (simp add: sample_eval fmt_d_def digits_small digits_big)
  from empty_result_rendering
          [of "\<lparr>Rows = [], Columns = [''id'', ''name''], Count = 0, Timing = ''1.5ms''\<rparr>"
              "env0\<lparr>poolQuery := \<lambda>q args. QueryRows [''id''] []\<rparr>" "''SELECT id FROM t''"
              "[''id'']" server0 "[''id'', ''name'']"
              "globals0\<lparr>DB := True, WithExplainCheck := False\<rparr>"
              "env3_0\<lparr>queryx := \<lambda>q. QueryxRows (Inr [''id'', ''name'']) []\<rparr>" "''''"]
       c d
  show ?thesis by simp
qed

end
